theory Spec2Isabelle
  imports Main "HOL-Library.Word"
begin

section \<open>Data model\<close>

text \<open>
  The node's session protocol (\<^verbatim>\<open>JoinLuanet\<close>, \<^verbatim>\<open>SendQuicMsg\<close>, \<^verbatim>\<open>ReadQuicMsg\<close>,
  \<^verbatim>\<open>HeartBeat\<close>, \<^verbatim>\<open>CmdHandlers\<close>, \<^verbatim>\<open>GetIpInfo\<close>) and the diagnostic
  providers (\<^verbatim>\<open>NodeTest\<close>, \<^verbatim>\<open>ipv4Test\<close>, \<^verbatim>\<open>ipv6Test\<close>) are embedded as functions
  on an explicit state. Go's \<^verbatim>\<open>int64\<close> is a 64-bit word; a \<^verbatim>\<open>float64\<close> is only ever
  copied by this code and is kept as its 64-bit IEEE-754 pattern.
\<close>

type_synonym int64 = "64 word"
type_synonym float64 = "64 word"
type_synonym stream = nat

text \<open>
  An \<^verbatim>\<open>error\<close> value is either one returned by a library call (with its text) or the
  one that \<^verbatim>\<open>JoinLuanet\<close> builds itself with \<^verbatim>\<open>fmt.Errorf\<close> (with its text).
\<close>

datatype error = LibError string | Errorf string

text \<open>A call either returns or ends in a run-time panic (nil dereference, failed type assertion).\<close>

datatype 'a res = Returns 'a | Panics

text \<open>\<^verbatim>\<open>config.Luanet\<close>, from \<^verbatim>\<open>config/luanet.go\<close>.\<close>

record Luanet =
  Domain :: string
  Node :: string
  Api :: string
  ExpiresTime :: int64

text \<open>
  The wire types of package \<^verbatim>\<open>proto\<close>, with the fields this code reads and writes.
  \<^verbatim>\<open>proto.Ip\<close> is opaque here: \<open>ZeroIp\<close> is the value \<^verbatim>\<open>proto.Ip{}\<close>, any other value is
  what the JSON decoder stored. The service tags are the three constants the code names;
  \<open>OtherService\<close> stands for every other tag.
\<close>

datatype Service = JoinService | HeartBeatService | SpeedTestService | OtherService nat

datatype Ip = ZeroIp | IpInfo string

record JoinReq =
  Address :: string
  Ipv4 :: Ip
  Ipv6 :: Ip
  Signature :: string
  Expires :: int64

record Pems =
  Privkey :: string
  Cert :: string

record CertEntry =
  Pems :: Pems

text \<open>
  \<^verbatim>\<open>JoinRes.Certs\<close> is a Go map. It is kept as the list of its entries in the order in
  which \<^verbatim>\<open>range\<close> visits them, which Go leaves unspecified: every order is a list.
\<close>

record JoinRes =
  Success :: bool
  Message :: string
  Certs :: "(string \<times> CertEntry) list"

record Stats =
  Storage :: int64
  In :: int64
  Out :: int64
  Ingress :: float64
  Egress :: float64

datatype Data =
    NoData
  | DJoinReq JoinReq
  | DJoinRes JoinRes
  | DHeartBeatReq Stats
  | DOther nat

record Proto =
  Service :: Service
  Data :: Data

record IpTest =
  Ip :: string
  Swarm :: bool
  Gateway :: bool

record TestResult =
  Ports :: "string \<rightharpoonup> IpTest"
  Download :: float64
  Upload :: float64

text \<open>\<^verbatim>\<open>metrics.Stats\<close>, as returned by \<^verbatim>\<open>Reporter.GetBandwidthTotals\<close>.\<close>

record BwStats =
  TotalIn :: int64
  TotalOut :: int64
  RateIn :: float64
  RateOut :: float64

text \<open>\<^verbatim>\<open>speedtest.Server\<close>: the two fields the code reads after a measurement.\<close>

record Server =
  DLSpeed :: float64
  ULSpeed :: float64

section \<open>The environment\<close>

text \<open>
  Everything outside the node is an oracle. Calls into the outside world are counted by the
  state's \<open>clock\<close>; the answer to a call may depend on the clock value at which it is made,
  so a peer, a disk or a key may fail at one time and work at another. A library call that
  fails answers with the text of its error.

  A decoder takes a pointer to its destination and returns an error: its answer is the pair
  of what it stored (\<open>None\<close> when it stored nothing, so that the destination keeps its
  zero value) and the error. \<^verbatim>\<open>encoding/json\<close> documents that on a value of the wrong type
  it skips the field, completes the unmarshalling as best it can and returns the earliest
  such error; \<^verbatim>\<open>encoding/gob\<close> stores a struct field by field and stops at the first field
  it cannot decode.

  \<open>Sign\<close> is \<^verbatim>\<open>n.PrivateKey.Sign\<close>; \<open>Verify sg b\<close> says that the signature \<open>sg\<close>
  verifies over the bytes \<open>b\<close> with the public key of that private key. The code never
  verifies a signature.

  A failed \<^verbatim>\<open>WriteFile\<close> answers with the error and with what is then at the path.
  \<^verbatim>\<open>filepath.Clean\<close>, the zero value of \<^verbatim>\<open>proto\<close>'s service type and
  \<^verbatim>\<open>proto.IpTest.IsOpen\<close> are parameters: they are declared outside this repository.
\<close>

record Env =
  RepoConfig :: "nat \<Rightarrow> string + Luanet"
  DialAddr :: "nat \<Rightarrow> string \<Rightarrow> string option"
  OpenStreamSync :: "nat \<Rightarrow> string option"
  UnixNow :: "nat \<Rightarrow> int64"
  Sign :: "nat \<Rightarrow> string \<Rightarrow> string + string"
  Verify :: "string \<Rightarrow> string \<Rightarrow> bool"
  HttpGet :: "nat \<Rightarrow> string \<Rightarrow> string + string"
  JsonDecodeIp :: "string \<Rightarrow> Ip option \<times> string option"
  JsonDecodeIpTest :: "string \<Rightarrow> IpTest option \<times> string option"
  Encode :: "nat \<Rightarrow> stream \<Rightarrow> Proto \<Rightarrow> string option"
  Decode :: "nat \<Rightarrow> stream \<Rightarrow> Proto option \<times> string option"
  MkdirAll :: "nat \<Rightarrow> string \<Rightarrow> string option"
  WriteFile :: "nat \<Rightarrow> string \<Rightarrow> string \<Rightarrow> (string \<times> string option) option"
  GetBandwidthTotals :: "nat \<Rightarrow> BwStats"
  Clean :: "string \<Rightarrow> string"
  ZeroService :: Service
  IsOpen :: "IpTest \<Rightarrow> bool"
  FindServer :: "nat \<Rightarrow> Server list"
  DownloadTest :: "nat \<Rightarrow> Server \<Rightarrow> Server \<times> string option"
  UploadTest :: "nat \<Rightarrow> Server \<Rightarrow> Server \<times> string option"
  CheckResultValid :: "Server \<Rightarrow> bool"

section \<open>The state\<close>

text \<open>
  The trace records, in order, what the code does to the outside: log lines, prints, attempts
  to encode an envelope onto a stream (with their outcome), streams opened, bytes handed to
  the private key, directory and file writes attempted, and each entry into \<^verbatim>\<open>JoinLuanet\<close>.

  The heartbeat and the command dispatcher run as two goroutines. Each function is embedded
  as one sequential run; what another goroutine does to the peer and to the content of the
  stream in the meantime is part of the oracles' answers. Only \<^verbatim>\<open>JoinLuanet\<close> assigns
  \<^verbatim>\<open>n.Stream\<close>, and the dispatcher, which never sends, never reaches it.
\<close>

datatype level = Info | Warn | Error

datatype event =
    EvJoin
  | EvLog level string
  | EvPrint string
  | EvOpen stream
  | EvSign string
  | EvEncode stream Proto bool
  | EvMkdir string
  | EvWrite string string

record World =
  clock :: nat
  trace :: "event list"
  dirs :: "string set"
  files :: "string \<rightharpoonup> string"

text \<open>
  \<^verbatim>\<open>IpfsNode\<close>: the fields the session code uses. \<open>Stream\<close> is the pointer
  \<^verbatim>\<open>n.Stream\<close>, \<open>None\<close> when nil; a stream is named by the clock value at which it was
  opened. \<open>Identity\<close> is \<^verbatim>\<open>n.Identity.String()\<close>.
\<close>

record IpfsNode = World +
  Stream :: "stream option"
  Identity :: string
  ConfigRoot :: string

definition tick :: "'a World_scheme \<Rightarrow> 'a World_scheme" where
  "tick w = w\<lparr>clock := Suc (clock w)\<rparr>"

definition emit :: "event \<Rightarrow> 'a World_scheme \<Rightarrow> 'a World_scheme" where
  "emit e w = w\<lparr>trace := trace w @ [e]\<rparr>"

section \<open>Library functions with a fixed meaning\<close>

text \<open>\<^verbatim>\<open>strconv.FormatInt(i, 10)\<close>.\<close>

definition digit :: "nat \<Rightarrow> char" where
  "digit d = ''0123456789'' ! d"

fun FormatUint :: "nat \<Rightarrow> string" where
  "FormatUint n = (if n < 10 then [digit n] else FormatUint (n div 10) @ [digit (n mod 10)])"

declare FormatUint.simps [simp del]

definition FormatInt :: "int64 \<Rightarrow> string" where
  "FormatInt i = (if sint i < 0 then ''-'' @ FormatUint (nat (- sint i)) else FormatUint (nat (sint i)))"

text \<open>
  \<^verbatim>\<open>filepath.Join\<close>: the elements from the first non-empty one on are joined with the
  separator (\<open>join_sep\<close> is \<^verbatim>\<open>strings.Join\<close>) and the result is cleaned; with no
  non-empty element the result is empty.
\<close>

fun join_sep :: "string list \<Rightarrow> string" where
  "join_sep [] = []"
| "join_sep [e] = e"
| "join_sep (e # es) = e @ ''/'' @ join_sep es"

fun filepath_Join :: "Env \<Rightarrow> string list \<Rightarrow> string" where
  "filepath_Join env [] = []"
| "filepath_Join env (e # es) = (if e = [] then filepath_Join env es else Clean env (join_sep (e # es)))"

section \<open>The session manager\<close>

text \<open>
  \<^verbatim>\<open>ReadQuicMsg\<close>. The named result \<^verbatim>\<open>message\<close> starts as the zero envelope and is the
  destination of \<^verbatim>\<open>Decode\<close>; an error is logged and the result is returned as it then is.
  Dereferencing a nil \<^verbatim>\<open>n.Stream\<close> panics. That a read may block for ever is not modelled.
\<close>

definition zero_Proto :: "Env \<Rightarrow> Proto" where
  "zero_Proto env = \<lparr>Service = ZeroService env, Data = NoData\<rparr>"

definition ReadQuicMsg :: "Env \<Rightarrow> IpfsNode \<Rightarrow> IpfsNode \<times> Proto res" where
  "ReadQuicMsg env n =
     (case Stream n of
        None \<Rightarrow> (n, Panics)
      | Some s \<Rightarrow>
          (case Decode env (clock n) s of
             (stored, err) \<Rightarrow>
               let message = (case stored of None \<Rightarrow> zero_Proto env | Some m \<Rightarrow> m);
                   n1 = tick n
               in (case err of
                     None \<Rightarrow> (n1, Returns message)
                   | Some e \<Rightarrow>
                       (emit (EvLog Error (''Failed to read quic message: %v'' @ e)) n1,
                        Returns message))))"

text \<open>
  \<^verbatim>\<open>GetIpInfo\<close>: the zero \<^verbatim>\<open>proto.Ip\<close> when the configuration or the HTTP request fails,
  otherwise whatever the JSON decoder stored (its error is not looked at).
\<close>

definition GetIpInfo :: "Env \<Rightarrow> IpfsNode \<Rightarrow> string \<Rightarrow> IpfsNode \<times> Ip" where
  "GetIpInfo env n version =
     (case RepoConfig env (clock n) of
        Inl err \<Rightarrow> (tick n, ZeroIp)
      | Inr cfg \<Rightarrow>
          let n1 = tick n in
          (case HttpGet env (clock n1) (''http://'' @ version @ ''.'' @ Domain cfg) of
             Inl err \<Rightarrow> (tick n1, ZeroIp)
           | Inr body \<Rightarrow>
               (tick n1, (case fst (JsonDecodeIp env body) of None \<Rightarrow> ZeroIp | Some ip \<Rightarrow> ip))))"

text \<open>
  The loop \<^verbatim>\<open>for ip, cert := range joinRes.Certs\<close> of \<^verbatim>\<open>JoinLuanet\<close>, on the entries in
  the order of the iteration. It returns the error with which \<^verbatim>\<open>JoinLuanet\<close> returns from
  inside the loop, if any. The file mode \<^verbatim>\<open>os.ModePerm\<close> is not modelled.
\<close>

definition cert_dir :: "Env \<Rightarrow> IpfsNode \<Rightarrow> string \<Rightarrow> string" where
  "cert_dir env n ip = filepath_Join env [ConfigRoot n, ''certs'', ip]"

definition private_pem :: "Env \<Rightarrow> IpfsNode \<Rightarrow> string \<Rightarrow> string" where
  "private_pem env n ip = filepath_Join env [ConfigRoot n, ''certs'', ip, ''private.pem'']"

definition cert_pem :: "Env \<Rightarrow> IpfsNode \<Rightarrow> string \<Rightarrow> string" where
  "cert_pem env n ip = filepath_Join env [ConfigRoot n, ''certs'', ip, ''cert.pem'']"

definition os_MkdirAll :: "Env \<Rightarrow> IpfsNode \<Rightarrow> string \<Rightarrow> IpfsNode \<times> error option" where
  "os_MkdirAll env n path =
     (let n1 = emit (EvMkdir path) (tick n) in
      case MkdirAll env (clock n) path of
        Some err \<Rightarrow> (n1, Some (LibError err))
      | None \<Rightarrow> (n1\<lparr>dirs := insert path (dirs n1)\<rparr>, None))"

definition ioutil_WriteFile :: "Env \<Rightarrow> IpfsNode \<Rightarrow> string \<Rightarrow> string \<Rightarrow> IpfsNode \<times> error option" where
  "ioutil_WriteFile env n path content =
     (let n1 = emit (EvWrite path content) (tick n) in
      case WriteFile env (clock n) path content of
        Some (err, left) \<Rightarrow> (n1\<lparr>files := (files n1)(path := left)\<rparr>, Some (LibError err))
      | None \<Rightarrow> (n1\<lparr>files := (files n1)(path \<mapsto> content)\<rparr>, None))"

fun write_certs :: "Env \<Rightarrow> IpfsNode \<Rightarrow> (string \<times> CertEntry) list \<Rightarrow> IpfsNode \<times> error option" where
  "write_certs env n [] = (n, None)"
| "write_certs env n ((ip, cert) # rest) =
     (case os_MkdirAll env n (cert_dir env n ip) of
        (n1, Some err) \<Rightarrow> (n1, Some err)
      | (n1, None) \<Rightarrow>
          (case ioutil_WriteFile env n1 (private_pem env n1 ip) (Privkey (Pems cert)) of
             (n2, Some err) \<Rightarrow> (n2, Some err)
           | (n2, None) \<Rightarrow>
               (case ioutil_WriteFile env n2 (cert_pem env n2 ip) (Cert (Pems cert)) of
                  (n3, _) \<Rightarrow> write_certs env n3 rest)))"

text \<open>
  \<^verbatim>\<open>SendQuicMsg\<close> and \<^verbatim>\<open>JoinLuanet\<close> call each other: a failed send joins again, and a
  join sends its request. Nothing in the code bounds this recursion, so both take fuel, the
  depth of calls still allowed, and \<open>None\<close> is a run that needs more. \<^verbatim>\<open>SendQuicMsg\<close>
  has no result: it returns or panics. The calls to \<^verbatim>\<open>gob.Register\<close> and the TLS
  configuration have no effect on the state modelled here.
\<close>

fun SendQuicMsg :: "nat \<Rightarrow> Env \<Rightarrow> IpfsNode \<Rightarrow> Proto \<Rightarrow> (IpfsNode \<times> unit res) option"
and JoinLuanet :: "nat \<Rightarrow> Env \<Rightarrow> IpfsNode \<Rightarrow> (IpfsNode \<times> (error + JoinRes) res) option" where
  "SendQuicMsg 0 env n msg = None"
| "SendQuicMsg (Suc f) env n msg =
     (case Stream n of
        None \<Rightarrow> Some (n, Panics)
      | Some s \<Rightarrow>
          (case Encode env (clock n) s msg of
             None \<Rightarrow> Some (emit (EvEncode s msg True) (tick n), Returns ())
           | Some err \<Rightarrow>
               (case JoinLuanet f env
                       (emit (EvLog Error (''Failed to send quic message: %v'' @ err))
                          (emit (EvEncode s msg False) (tick n))) of
                  None \<Rightarrow> None
                | Some (n', Panics) \<Rightarrow> Some (n', Panics)
                | Some (n', Returns _) \<Rightarrow> Some (n', Returns ()))))"
| "JoinLuanet 0 env n = None"
| "JoinLuanet (Suc f) env n =
     (let n0 = emit EvJoin n in
      case RepoConfig env (clock n0) of
        Inl err \<Rightarrow> Some (tick n0, Returns (Inl (LibError err)))
      | Inr cfg \<Rightarrow>
     (let n1 = emit (EvLog Info (''Connecting to node address: '' @ Api cfg)) (tick n0) in
      case DialAddr env (clock n1) (Api cfg) of
        Some err \<Rightarrow> Some (tick n1, Returns (Inl (LibError err)))
      | None \<Rightarrow>
     (let n2 = tick n1 in
      case OpenStreamSync env (clock n2) of
        Some err \<Rightarrow> Some (tick n2, Returns (Inl (LibError err)))
      | None \<Rightarrow>
     (let stream = clock n2;
          n3 = emit (EvOpen stream) (tick n2);
          expires = UnixNow env (clock n3) + ExpiresTime cfg;
          bytes = Identity n3 @ ''.'' @ FormatInt expires;
          n4 = emit (EvSign bytes) (tick n3)
      in
      case Sign env (clock n4) bytes of
        Inl err \<Rightarrow> Some (tick n4, Returns (Inl (LibError err)))
      | Inr signature \<Rightarrow>
     (case GetIpInfo env (tick n4) ''ip4'' of (n5, ip4) \<Rightarrow>
      case GetIpInfo env n5 ''ip6'' of (n6, ip6) \<Rightarrow>
      let message = \<lparr>Service = JoinService,
                     Data = DJoinReq \<lparr>Address = Identity n6, Ipv4 = ip4, Ipv6 = ip6,
                                      Signature = signature, Expires = expires\<rparr>\<rparr>;
          n7 = n6\<lparr>Stream := Some stream\<rparr>
      in
      case SendQuicMsg f env n7 message of
        None \<Rightarrow> None
      | Some (n8, Panics) \<Rightarrow> Some (n8, Panics)
      | Some (n8, Returns _) \<Rightarrow>
     (case ReadQuicMsg env n8 of
        (n9, Panics) \<Rightarrow> Some (n9, Panics)
      | (n9, Returns msg) \<Rightarrow>
     (case Data msg of
        DJoinRes joinRes \<Rightarrow>
          if \<not> Success joinRes
          then Some (n9, Returns (Inl (Errorf (''Failed to join lua network: '' @ Message joinRes))))
          else (case write_certs env n9 (Certs joinRes) of
                  (n10, Some err) \<Rightarrow> Some (n10, Returns (Inl err))
                | (n10, None) \<Rightarrow> Some (n10, Returns (Inr joinRes)))
      | _ \<Rightarrow> Some (n9, Panics))))))))"

section \<open>The heartbeat emitter and the command dispatcher\<close>

text \<open>
  \<^verbatim>\<open>HeartBeat\<close> and \<^verbatim>\<open>CmdHandlers\<close> are loops without an exit, one iteration for each
  tick of their timer. \<open>HeartBeat_tick\<close> and \<open>CmdHandlers_tick\<close> are the loop bodies;
  \<open>HeartBeat\<close> and \<open>CmdHandlers\<close> run the first \<open>k\<close> iterations and stop early only on a
  panic. The real-time cadence of the timers is not modelled.
\<close>

definition HeartBeat_tick :: "nat \<Rightarrow> Env \<Rightarrow> IpfsNode \<Rightarrow> (IpfsNode \<times> unit res) option" where
  "HeartBeat_tick f env n =
     (let totals = GetBandwidthTotals env (clock n);
          message = \<lparr>Service = HeartBeatService,
                     Data = DHeartBeatReq \<lparr>Storage = 0, In = TotalIn totals, Out = TotalOut totals,
                                           Ingress = RateIn totals, Egress = RateOut totals\<rparr>\<rparr>
      in SendQuicMsg f env (tick n) message)"

fun HeartBeat :: "nat \<Rightarrow> nat \<Rightarrow> Env \<Rightarrow> IpfsNode \<Rightarrow> (IpfsNode \<times> unit res) option" where
  "HeartBeat 0 f env n = Some (n, Returns ())"
| "HeartBeat (Suc k) f env n =
     (case HeartBeat_tick f env n of
        None \<Rightarrow> None
      | Some (n', Panics) \<Rightarrow> Some (n', Panics)
      | Some (n', Returns _) \<Rightarrow> HeartBeat k f env n')"

text \<open>
  In \<^verbatim>\<open>CmdHandlers\<close> the body of \<^verbatim>\<open>case proto.SpeedTestService\<close> is commented out, so
  the \<^verbatim>\<open>switch\<close> changes nothing in either branch.
\<close>

definition CmdHandlers_tick :: "nat \<Rightarrow> Env \<Rightarrow> IpfsNode \<Rightarrow> (IpfsNode \<times> unit res) option" where
  "CmdHandlers_tick f env n =
     (case ReadQuicMsg env n of
        (n1, Panics) \<Rightarrow> Some (n1, Panics)
      | (n1, Returns msg) \<Rightarrow>
          let message0 = \<lparr>Service = Service msg, Data = NoData\<rparr>;
              message = (case Service msg of SpeedTestService \<Rightarrow> message0 | _ \<Rightarrow> message0)
          in if Data message \<noteq> NoData
             then SendQuicMsg f env (emit (EvPrint ''Sending cmd response....'') n1) message
             else Some (n1, Returns ()))"

fun CmdHandlers :: "nat \<Rightarrow> nat \<Rightarrow> Env \<Rightarrow> IpfsNode \<Rightarrow> (IpfsNode \<times> unit res) option" where
  "CmdHandlers 0 f env n = Some (n, Returns ())"
| "CmdHandlers (Suc k) f env n =
     (case CmdHandlers_tick f env n of
        None \<Rightarrow> None
      | Some (n', Panics) \<Rightarrow> Some (n', Panics)
      | Some (n', Returns _) \<Rightarrow> CmdHandlers k f env n')"

section \<open>The diagnostic providers\<close>

text \<open>
  \<^verbatim>\<open>ipv4Test\<close> and \<^verbatim>\<open>ipv6Test\<close> of package \<^verbatim>\<open>node\<close>. \<^verbatim>\<open>cResp\<close> is declared first and
  is the destination of the JSON decoder; both error branches return it as it then is.
  The two functions differ in their URL and in the digit of their log lines only, which
  \<open>port_test\<close> takes as arguments.
\<close>

definition zero_IpTest :: IpTest where
  "zero_IpTest = \<lparr>Ip = [], Swarm = False, Gateway = False\<rparr>"

definition port_test :: "string \<Rightarrow> string \<Rightarrow> Env \<Rightarrow> 'a World_scheme \<Rightarrow> 'a World_scheme \<times> IpTest" where
  "port_test v URL env w =
     (case HttpGet env (clock w) URL of
        Inl err \<Rightarrow>
          (emit (EvLog Warn (''Failed to check ipv'' @ v @ '' port forwarding.'')) (tick w), zero_IpTest)
      | Inr body \<Rightarrow>
          (case JsonDecodeIpTest env body of
             (stored, err) \<Rightarrow>
               let cResp = (case stored of None \<Rightarrow> zero_IpTest | Some r \<Rightarrow> r);
                   w1 = tick w
               in (case err of
                     Some e \<Rightarrow>
                       (emit (EvLog Warn (''Failed to decode ipv'' @ v @ '' port forwarding data.'')) w1,
                        cResp)
                   | None \<Rightarrow>
                       let w2 = (if \<not> Swarm cResp
                                 then emit (EvLog Warn (''[Ipv'' @ v @ ''] Swarm port 4001 is not opened to the internet.'')) w1
                                 else w1);
                           w3 = (if \<not> Gateway cResp
                                 then emit (EvLog Warn (''[Ipv'' @ v @ ''] Gateway port 443 is not opened to the internet.'')) w2
                                 else w2)
                       in (w3, cResp))))"

definition ipv4Test :: "Env \<Rightarrow> 'a World_scheme \<Rightarrow> 'a World_scheme \<times> IpTest" where
  "ipv4Test = port_test ''4'' ''http://ip4.luanet.io''"

definition ipv6Test :: "Env \<Rightarrow> 'a World_scheme \<Rightarrow> 'a World_scheme \<times> IpTest" where
  "ipv6Test = port_test ''6'' ''http://ip6.luanet.io''"

text \<open>
  The older \<^verbatim>\<open>ipv4Test\<close> and \<^verbatim>\<open>ipv6Test\<close> of package \<^verbatim>\<open>main\<close>, which return one
  boolean and return \<^verbatim>\<open>false\<close> in both error branches.
\<close>

definition main_port_test :: "string \<Rightarrow> string \<Rightarrow> Env \<Rightarrow> 'a World_scheme \<Rightarrow> 'a World_scheme \<times> bool" where
  "main_port_test v URL env w =
     (case HttpGet env (clock w) URL of
        Inl err \<Rightarrow>
          (emit (EvLog Warn (''Failed to check ipv'' @ v @ '' port forwarding.'')) (tick w), False)
      | Inr body \<Rightarrow>
          (case JsonDecodeIpTest env body of
             (stored, err) \<Rightarrow>
               let cResp = (case stored of None \<Rightarrow> zero_IpTest | Some r \<Rightarrow> r);
                   w1 = tick w
               in (case err of
                     Some e \<Rightarrow>
                       (emit (EvLog Warn (''Failed to decode ipv'' @ v @ '' port forwarding data.'')) w1,
                        False)
                   | None \<Rightarrow>
                       let w2 = (if \<not> Swarm cResp
                                 then emit (EvLog Warn (''[Ipv'' @ v @ ''] Swarm port 4001 is not opened to the internet.'')) w1
                                 else w1);
                           w3 = (if \<not> Gateway cResp
                                 then emit (EvLog Warn (''[Ipv'' @ v @ ''] Gateway port 443 is not opened to the internet.'')) w2
                                 else w2)
                       in (w3, Swarm cResp \<and> Gateway cResp))))"

definition main_ipv4Test :: "Env \<Rightarrow> 'a World_scheme \<Rightarrow> 'a World_scheme \<times> bool" where
  "main_ipv4Test = main_port_test ''4'' ''http://ip4.luanet.io''"

definition main_ipv6Test :: "Env \<Rightarrow> 'a World_scheme \<Rightarrow> 'a World_scheme \<times> bool" where
  "main_ipv6Test = main_port_test ''6'' ''http://ip6.luanet.io''"

text \<open>
  The speed test. A measurement updates the server record and may fail. The dots that a
  second goroutine prints once a second while a measurement runs are not modelled, and of a
  formatted print only the format is kept.
\<close>

definition testDownload :: "Env \<Rightarrow> 'a World_scheme \<Rightarrow> Server \<Rightarrow> 'a World_scheme \<times> Server \<times> error option" where
  "testDownload env w server =
     (let w1 = emit (EvPrint ''[Speedtest] Downloading: '') w in
      case DownloadTest env (clock w1) server of
        (server', Some err) \<Rightarrow> (tick w1, server', Some (LibError err))
      | (server', None) \<Rightarrow> (emit (EvPrint ''\<newline>'') (tick w1), server', None))"

definition testUpload :: "Env \<Rightarrow> 'a World_scheme \<Rightarrow> Server \<Rightarrow> 'a World_scheme \<times> Server \<times> error option" where
  "testUpload env w server =
     (let w1 = emit (EvPrint ''[Speedtest] Uploading: '') w in
      case UploadTest env (clock w1) server of
        (server', Some err) \<Rightarrow> (tick w1, server', Some (LibError err))
      | (server', None) \<Rightarrow> (emit (EvPrint ''\<newline>'') (tick w1), server', None))"

definition showSpeedResult :: "Env \<Rightarrow> 'a World_scheme \<Rightarrow> Server \<Rightarrow> 'a World_scheme" where
  "showSpeedResult env w server =
     (let w1 = emit (EvPrint ''[Speedtest] Download Speed: %5.2f Mbit/s\<newline>'') w;
          w2 = emit (EvPrint ''[Speedtest] Upload Speed: %5.2f Mbit/s\<newline>\<newline>'') w1
      in if \<not> CheckResultValid env server
         then emit (EvPrint ''Warning: Result seems to be wrong. Please speedtest again.\<newline>'') w2
         else w2)"

text \<open>
  \<^verbatim>\<open>NodeTest\<close> sends its result on the channel it is given; here it returns it. The three
  calls that produce \<^verbatim>\<open>targets\<close> (their errors are dropped) are one oracle, and the loop
  over \<^verbatim>\<open>targets\<close> ends with \<^verbatim>\<open>break\<close> after its first iteration.
\<close>

definition NodeTest :: "Env \<Rightarrow> 'a World_scheme \<Rightarrow> 'a World_scheme \<times> TestResult" where
  "NodeTest env w =
     (case ipv4Test env w of (w1, v4) \<Rightarrow>
      case ipv6Test env w1 of (w2, v6) \<Rightarrow>
      let w3 = (if \<not> IsOpen env v4 \<and> \<not> IsOpen env v6
                then emit (EvLog Error (''Your node'' @ [CHR 0x27] @ ''s ports is not open to the internet.'')) w2
                else w2);
          result = \<lparr>Ports = [''v4'' \<mapsto> v4, ''v6'' \<mapsto> v6], Download = 0, Upload = 0\<rparr>;
          targets = FindServer env (clock w3);
          w4 = tick w3
      in case targets of
           [] \<Rightarrow> (w4, result)
         | s # _ \<Rightarrow>
             (case testDownload env w4 s of (w5, s1, err1) \<Rightarrow>
              let result1 = (if err1 = None then result\<lparr>Download := DLSpeed s1\<rparr> else result) in
              case testUpload env w5 s1 of (w6, s2, err2) \<Rightarrow>
              let result2 = (if err2 = None then result1\<lparr>Upload := ULSpeed s2\<rparr> else result1)
              in (showSpeedResult env w6 s2, result2)))"

text \<open>
  The \<^verbatim>\<open>Run\<close> function of the current \<^verbatim>\<open>testCmd\<close>: it starts \<^verbatim>\<open>NodeTest\<close>, waits for
  its result, drops it and returns \<^verbatim>\<open>nil\<close>.
\<close>

definition testCmd_Run :: "Env \<Rightarrow> 'a World_scheme \<Rightarrow> 'a World_scheme \<times> error option" where
  "testCmd_Run env w = (case NodeTest env w of (w1, result) \<Rightarrow> (w1, None))"

section \<open>Auxiliary definitions\<close>

text \<open>
  \<^verbatim>\<open>JoinLuanet\<close> in two halves around its call of \<^verbatim>\<open>SendQuicMsg\<close>: \<open>join_request\<close> is
  the code up to the assignment of \<^verbatim>\<open>n.Stream\<close>, with the envelope to send or the error
  returned early; \<open>join_response\<close> is the code after the send. Lemma \<open>JoinLuanet_Suc\<close>
  below shows that \<open>JoinLuanet\<close> is their composition.
\<close>

definition join_request :: "Env \<Rightarrow> IpfsNode \<Rightarrow> IpfsNode \<times> (error + Proto)" where
  "join_request env n =
     (let n0 = emit EvJoin n in
      case RepoConfig env (clock n0) of
        Inl err \<Rightarrow> (tick n0, Inl (LibError err))
      | Inr cfg \<Rightarrow>
     (let n1 = emit (EvLog Info (''Connecting to node address: '' @ Api cfg)) (tick n0) in
      case DialAddr env (clock n1) (Api cfg) of
        Some err \<Rightarrow> (tick n1, Inl (LibError err))
      | None \<Rightarrow>
     (let n2 = tick n1 in
      case OpenStreamSync env (clock n2) of
        Some err \<Rightarrow> (tick n2, Inl (LibError err))
      | None \<Rightarrow>
     (let stream = clock n2;
          n3 = emit (EvOpen stream) (tick n2);
          expires = UnixNow env (clock n3) + ExpiresTime cfg;
          bytes = Identity n3 @ ''.'' @ FormatInt expires;
          n4 = emit (EvSign bytes) (tick n3)
      in
      case Sign env (clock n4) bytes of
        Inl err \<Rightarrow> (tick n4, Inl (LibError err))
      | Inr signature \<Rightarrow>
     (case GetIpInfo env (tick n4) ''ip4'' of (n5, ip4) \<Rightarrow>
      case GetIpInfo env n5 ''ip6'' of (n6, ip6) \<Rightarrow>
        (n6\<lparr>Stream := Some stream\<rparr>,
         Inr \<lparr>Service = JoinService,
              Data = DJoinReq \<lparr>Address = Identity n6, Ipv4 = ip4, Ipv6 = ip6,
                               Signature = signature, Expires = expires\<rparr>\<rparr>))))))"

definition join_response :: "Env \<Rightarrow> IpfsNode \<Rightarrow> IpfsNode \<times> (error + JoinRes) res" where
  "join_response env n8 =
     (case ReadQuicMsg env n8 of
        (n9, Panics) \<Rightarrow> (n9, Panics)
      | (n9, Returns msg) \<Rightarrow>
     (case Data msg of
        DJoinRes joinRes \<Rightarrow>
          if \<not> Success joinRes
          then (n9, Returns (Inl (Errorf (''Failed to join lua network: '' @ Message joinRes))))
          else (case write_certs env n9 (Certs joinRes) of
                  (n10, Some err) \<Rightarrow> (n10, Returns (Inl err))
                | (n10, None) \<Rightarrow> (n10, Returns (Inr joinRes)))
      | _ \<Rightarrow> (n9, Panics)))"

text \<open>Predicates on the trace.\<close>

fun is_encode :: "event \<Rightarrow> bool" where
  "is_encode (EvEncode s m b) = True"
| "is_encode e = False"

fun is_join :: "event \<Rightarrow> bool" where
  "is_join EvJoin = True"
| "is_join e = False"

definition is_join_request :: "Proto \<Rightarrow> bool" where
  "is_join_request m = (Service m = JoinService \<and> (case Data m of DJoinReq rq \<Rightarrow> True | _ \<Rightarrow> False))"

definition quiet :: "event list \<Rightarrow> bool" where
  "quiet evs = (\<forall>e \<in> set evs. \<not> is_encode e \<and> \<not> is_join e)"

definition run_inv :: "(Proto \<Rightarrow> bool) \<Rightarrow> IpfsNode \<Rightarrow> IpfsNode \<Rightarrow> bool" where
  "run_inv own n n' \<longleftrightarrow>
     Identity n' = Identity n \<and> ConfigRoot n' = ConfigRoot n \<and> clock n \<le> clock n' \<and>
     (\<exists>evs. trace n' = trace n @ evs
        \<and> (\<forall>s m b. EvEncode s m b \<in> set evs \<longrightarrow> own m \<or> is_join_request m)
        \<and> (Stream n' = Stream n \<or> (\<exists>s'. Stream n' = Some s' \<and> clock n \<le> s' \<and> EvOpen s' \<in> set evs)))"

section \<open>Example environments\<close>

text \<open>
  A world in which everything works: the coordinator accepts the join and sends certificates
  for two addresses, the clock reads 1699996400 and the join expiry is 3600 seconds; the paths
  it is asked to clean are clean already. The other examples change one oracle of it.
\<close>

definition ex_cfg :: Luanet where
  "ex_cfg = \<lparr>Domain = ''luanet.io'', Node = ''Qm123'', Api = ''api.luanet.io:4242'', ExpiresTime = 3600\<rparr>"

definition ex_res :: JoinRes where
  "ex_res = \<lparr>Success = True, Message = ''welcome'',
             Certs = [(''1.2.3.4'', \<lparr>Pems = \<lparr>Privkey = ''KEY-A'', Cert = ''CERT-A''\<rparr>\<rparr>),
                      (''5.6.7.8'', \<lparr>Pems = \<lparr>Privkey = ''KEY-B'', Cert = ''CERT-B''\<rparr>\<rparr>)]\<rparr>"

definition ex_rejected :: JoinRes where
  "ex_rejected = \<lparr>Success = False, Message = ''bad signature'', Certs = []\<rparr>"

definition ex_env :: Env where
  "ex_env = \<lparr>RepoConfig = (\<lambda>t. Inr ex_cfg),
            DialAddr = (\<lambda>t a. None),
            OpenStreamSync = (\<lambda>t. None),
            UnixNow = (\<lambda>t. 1699996400),
            Sign = (\<lambda>t b. Inr (''signed:'' @ b)),
            Verify = (\<lambda>sg b. sg = ''signed:'' @ b),
            HttpGet = (\<lambda>t u. Inl ''timeout''),
            JsonDecodeIp = (\<lambda>b. (None, Some ''unexpected end of JSON input'')),
            JsonDecodeIpTest = (\<lambda>b. (None, Some ''unexpected end of JSON input'')),
            Encode = (\<lambda>t s m. None),
            Decode = (\<lambda>t s. (Some \<lparr>Service = JoinService, Data = DJoinRes ex_res\<rparr>, None)),
            MkdirAll = (\<lambda>t p. None),
            WriteFile = (\<lambda>t p c. None),
            GetBandwidthTotals = (\<lambda>t. \<lparr>TotalIn = 0, TotalOut = 0, RateIn = 0, RateOut = 0\<rparr>),
            Clean = (\<lambda>p. p),
            ZeroService = OtherService 0,
            IsOpen = (\<lambda>r. Swarm r \<and> Gateway r),
            FindServer = (\<lambda>t. []),
            DownloadTest = (\<lambda>t s. (s, None)),
            UploadTest = (\<lambda>t s. (s, None)),
            CheckResultValid = (\<lambda>s. True)\<rparr>"

definition ex_node :: IpfsNode where
  "ex_node = \<lparr>clock = 0, trace = [], dirs = {}, files = Map.empty,
              Stream = Some 0, Identity = ''Qm123'', ConfigRoot = ''/data''\<rparr>"

definition ex_heartbeat :: Proto where
  "ex_heartbeat = \<lparr>Service = HeartBeatService,
                   Data = DHeartBeatReq \<lparr>Storage = 0, In = 1, Out = 2, Ingress = 3, Egress = 4\<rparr>\<rparr>"

definition ex_env_partial :: Env where
  "ex_env_partial = ex_env\<lparr>Decode := (\<lambda>t s. (Some \<lparr>Service = SpeedTestService, Data = NoData\<rparr>,
       Some ''gob: name not registered for interface''))\<rparr>"

definition ex_env_eof :: Env where
  "ex_env_eof = ex_env\<lparr>Decode := (\<lambda>t s. (None, Some ''EOF''))\<rparr>"

definition ex_env_cmd :: Env where
  "ex_env_cmd = ex_env\<lparr>Decode := (\<lambda>t s. (Some \<lparr>Service = OtherService 7, Data = DOther 1\<rparr>, None))\<rparr>"

text \<open>
  A node whose stream has gone and whose coordinator cannot be reached (every encode and every
  dial fails), and one whose streams open but never carry a message (every encode fails).
\<close>

definition ex_env_down :: Env where
  "ex_env_down = ex_env\<lparr>Encode := (\<lambda>t s m. Some ''stream closed''),
                         DialAddr := (\<lambda>t a. Some ''no route to host'')\<rparr>"

definition ex_env_flaky :: Env where
  "ex_env_flaky = ex_env\<lparr>Encode := (\<lambda>t s m. Some ''stream closed'')\<rparr>"

text \<open>
  The envelope that an iteration of \<^verbatim>\<open>HeartBeat\<close> builds from the totals it has read.
\<close>

definition heartbeat_of :: "BwStats \<Rightarrow> Proto" where
  "heartbeat_of totals =
     \<lparr>Service = HeartBeatService,
      Data = DHeartBeatReq \<lparr>Storage = 0, In = TotalIn totals, Out = TotalOut totals,
                            Ingress = RateIn totals, Egress = RateOut totals\<rparr>\<rparr>"

text \<open>
  The bit patterns of the \<^verbatim>\<open>float64\<close> values 5, 6, 10 and 12, and a bandwidth counter
  that reads (in 100, out 50, rates 10 and 5) at the first tick of the heartbeat and
  (150, 70, 12, 6) at the second.
\<close>

definition float64_5 :: float64 where "float64_5 = 0x4014000000000000"
definition float64_6 :: float64 where "float64_6 = 0x4018000000000000"
definition float64_10 :: float64 where "float64_10 = 0x4024000000000000"
definition float64_12 :: float64 where "float64_12 = 0x4028000000000000"

definition ex_env_hb :: Env where
  "ex_env_hb = ex_env\<lparr>GetBandwidthTotals :=
      (\<lambda>t. if t < 2 then \<lparr>TotalIn = 100, TotalOut = 50, RateIn = float64_10, RateOut = float64_5\<rparr>
                     else \<lparr>TotalIn = 150, TotalOut = 70, RateIn = float64_12, RateOut = float64_6\<rparr>)\<rparr>"

definition ex_stats1 :: Stats where
  "ex_stats1 = \<lparr>Storage = 0, In = 100, Out = 50, Ingress = float64_10, Egress = float64_5\<rparr>"
definition ex_stats2 :: Stats where
  "ex_stats2 = \<lparr>Storage = 0, In = 150, Out = 70, Ingress = float64_12, Egress = float64_6\<rparr>"

text \<open>
  A coordinator that rejects every join, a file system that refuses every write, and one on
  which only the \<^verbatim>\<open>cert.pem\<close> of the first address cannot be written.
\<close>

definition ex_env_rejecting :: Env where
  "ex_env_rejecting = ex_env\<lparr>Decode := (\<lambda>t s. (Some \<lparr>Service = JoinService, Data = DJoinRes ex_rejected\<rparr>, None))\<rparr>"


definition ex_env_cert_fails :: Env where
  "ex_env_cert_fails = ex_env\<lparr>WriteFile :=
     (\<lambda>t p c. if p = ''/data/certs/1.2.3.4/cert.pem'' then Some (''no space left on device'', Some []) else None)\<rparr>"

text \<open>
  A reachability endpoint that answers with a JSON object whose \<^verbatim>\<open>ip\<close> is a number. The
  decoder stores the two booleans and returns the type error for \<^verbatim>\<open>ip\<close>.
\<close>

definition ex_body :: string where
  \<open>ex_body = ''{"ip":0,"swarm":true,"gateway":true}''\<close>

definition ex_env_mismatch :: Env where
  "ex_env_mismatch = ex_env\<lparr>
     HttpGet := (\<lambda>t u. Inr ex_body),
     JsonDecodeIpTest := (\<lambda>b. if b = ex_body
        then (Some \<lparr>Ip = [], Swarm = True, Gateway = True\<rparr>,
              Some ''json: cannot unmarshal number into Go struct field IpTest.ip of type string'')
        else (None, Some ''invalid character''))\<rparr>"

text \<open>
  A key whose signature is the first eight bytes of what it signs, with the verification
  that belongs to it, at a coordinator that rejects the join.
\<close>

definition ex_env_short_key :: Env where
  "ex_env_short_key = ex_env_rejecting\<lparr>Sign := (\<lambda>t b. Inr (take 8 b)),
                                        Verify := (\<lambda>sg b. take 8 b = sg)\<rparr>"

text \<open>What is at a path when a run has ended.\<close>

definition final_files :: "(IpfsNode \<times> 'a) option \<Rightarrow> string \<Rightarrow> string option" where
  "final_files run path = (case run of None \<Rightarrow> None | Some (n, r) \<Rightarrow> files n path)"

section \<open>Basic lemmas\<close>

lemma JoinLuanet_Suc:
  "JoinLuanet (Suc f) env n =
     (case join_request env n of
        (n', Inl err) \<Rightarrow> Some (n', Returns (Inl err))
      | (n7, Inr message) \<Rightarrow>
          (case SendQuicMsg f env n7 message of
             None \<Rightarrow> None
           | Some (n8, Panics) \<Rightarrow> Some (n8, Panics)
           | Some (n8, Returns u) \<Rightarrow> Some (join_response env n8)))"
  by (simp add: join_request_def join_response_def Let_def
      split: sum.split option.split prod.split res.split Data.split)

declare JoinLuanet.simps(2) [simp del]

lemma tick_simps [simp]:
  "clock (tick w) = Suc (clock w)" "trace (tick w) = trace w"
  "dirs (tick w) = dirs w" "files (tick w) = files w"
  by (simp_all add: tick_def)

lemma emit_simps [simp]:
  "clock (emit e w) = clock w" "trace (emit e w) = trace w @ [e]"
  "dirs (emit e w) = dirs w" "files (emit e w) = files w"
  by (simp_all add: emit_def)

lemma node_tick_simps [simp]:
  "Stream (tick n) = Stream n" "Identity (tick n) = Identity n" "ConfigRoot (tick n) = ConfigRoot n"
  by (simp_all add: tick_def)

lemma node_emit_simps [simp]:
  "Stream (emit e n) = Stream n" "Identity (emit e n) = Identity n" "ConfigRoot (emit e n) = ConfigRoot n"
  by (simp_all add: emit_def)

lemma GetIpInfo_frame:
  assumes "GetIpInfo env n v = (n', ip)"
  shows "trace n' = trace n \<and> Stream n' = Stream n \<and> Identity n' = Identity n
     \<and> ConfigRoot n' = ConfigRoot n \<and> clock n \<le> clock n' \<and> dirs n' = dirs n \<and> files n' = files n"
  using assms by (auto simp: GetIpInfo_def Let_def split: sum.splits)

lemma ReadQuicMsg_frame:
  assumes "ReadQuicMsg env n = (n', r)"
  shows "Stream n' = Stream n \<and> Identity n' = Identity n \<and> ConfigRoot n' = ConfigRoot n
     \<and> clock n \<le> clock n' \<and> dirs n' = dirs n \<and> files n' = files n
     \<and> (\<exists>evs. trace n' = trace n @ evs \<and> quiet evs \<and> (\<forall>s. EvOpen s \<notin> set evs))"
  using assms
  by (auto simp: ReadQuicMsg_def Let_def quiet_def split: option.splits prod.splits)

lemma os_MkdirAll_frame:
  assumes "os_MkdirAll env n p = (n', r)"
  shows "Stream n' = Stream n \<and> Identity n' = Identity n \<and> ConfigRoot n' = ConfigRoot n
     \<and> clock n \<le> clock n' \<and> trace n' = trace n @ [EvMkdir p] \<and> files n' = files n"
  using assms by (auto simp: os_MkdirAll_def Let_def split: option.splits)

lemma ioutil_WriteFile_frame:
  assumes "ioutil_WriteFile env n p c = (n', r)"
  shows "Stream n' = Stream n \<and> Identity n' = Identity n \<and> ConfigRoot n' = ConfigRoot n
     \<and> clock n \<le> clock n' \<and> trace n' = trace n @ [EvWrite p c] \<and> dirs n' = dirs n"
  using assms by (auto simp: ioutil_WriteFile_def Let_def split: option.splits)

lemma write_certs_frame:
  assumes "write_certs env n cs = (n', r)"
  shows "Stream n' = Stream n \<and> Identity n' = Identity n \<and> ConfigRoot n' = ConfigRoot n
     \<and> clock n \<le> clock n'
     \<and> (\<exists>evs. trace n' = trace n @ evs \<and> quiet evs \<and> (\<forall>s. EvOpen s \<notin> set evs))"
  using assms
proof (induction cs arbitrary: n)
  case Nil
  then show ?case by (simp add: quiet_def)
next
  case (Cons a cs)
  obtain ip cert where a: "a = (ip, cert)" by (cases a)
  obtain n1 r1 where m: "os_MkdirAll env n (cert_dir env n ip) = (n1, r1)" by fastforce
  note f1 = os_MkdirAll_frame [OF m]
  show ?case
  proof (cases r1)
    case (Some err)
    with Cons.prems a m f1 show ?thesis by (auto simp: quiet_def)
  next
    case None
    obtain n2 r2 where w1: "ioutil_WriteFile env n1 (private_pem env n1 ip) (Privkey (Pems cert)) = (n2, r2)"
      by fastforce
    note f2 = ioutil_WriteFile_frame [OF w1]
    show ?thesis
    proof (cases r2)
      case (Some err)
      with Cons.prems a m None w1 f1 f2 show ?thesis by (auto simp: quiet_def)
    next
      case None2: None
      obtain n3 r3 where w2: "ioutil_WriteFile env n2 (cert_pem env n2 ip) (Cert (Pems cert)) = (n3, r3)"
        by fastforce
      note f3 = ioutil_WriteFile_frame [OF w2]
      from Cons.prems a m None w1 None2 w2 have rest: "write_certs env n3 cs = (n', r)" by simp
      from Cons.IH [OF rest] obtain evs where
        e: "trace n' = trace n3 @ evs" "quiet evs" "\<forall>s. EvOpen s \<notin> set evs"
        and fr: "Stream n' = Stream n3" "Identity n' = Identity n3" "ConfigRoot n' = ConfigRoot n3"
          "clock n3 \<le> clock n'" by blast
      have "trace n' = trace n @ ([EvMkdir (cert_dir env n ip), EvWrite (private_pem env n1 ip) (Privkey (Pems cert)),
           EvWrite (cert_pem env n2 ip) (Cert (Pems cert))] @ evs)"
        using e f1 f2 f3 by simp
      moreover have "quiet ([EvMkdir (cert_dir env n ip), EvWrite (private_pem env n1 ip) (Privkey (Pems cert)),
           EvWrite (cert_pem env n2 ip) (Cert (Pems cert))] @ evs)"
        using e by (simp add: quiet_def)
      moreover have "\<forall>s. EvOpen s \<notin> set ([EvMkdir (cert_dir env n ip), EvWrite (private_pem env n1 ip) (Privkey (Pems cert)),
           EvWrite (cert_pem env n2 ip) (Cert (Pems cert))] @ evs)"
        using e by simp
      ultimately show ?thesis using fr f1 f2 f3 by (metis le_trans)
    qed
  qed
qed

lemma join_request_Inl:
  assumes "join_request env n = (n', Inl err)"
  shows "Stream n' = Stream n \<and> Identity n' = Identity n \<and> ConfigRoot n' = ConfigRoot n
     \<and> clock n \<le> clock n' \<and> dirs n' = dirs n \<and> files n' = files n
     \<and> (\<exists>pre. trace n' = trace n @ EvJoin # pre \<and> quiet pre)"
  using assms
  by (auto simp: join_request_def Let_def quiet_def split: sum.splits option.splits prod.splits)

lemma join_request_Inr:
  assumes "join_request env n = (n7, Inr message)"
  shows "\<exists>cfg sig ip4 ip6.
       RepoConfig env (clock n) = Inr cfg
     \<and> DialAddr env (clock n + 1) (Api cfg) = None
     \<and> OpenStreamSync env (clock n + 2) = None
     \<and> Sign env (clock n + 4)
          (Identity n @ ''.'' @ FormatInt (UnixNow env (clock n + 3) + ExpiresTime cfg)) = Inr sig
     \<and> message = \<lparr>Service = JoinService,
                   Data = DJoinReq \<lparr>Address = Identity n, Ipv4 = ip4, Ipv6 = ip6, Signature = sig,
                                    Expires = UnixNow env (clock n + 3) + ExpiresTime cfg\<rparr>\<rparr>
     \<and> trace n7 = trace n @ [EvJoin, EvLog Info (''Connecting to node address: '' @ Api cfg),
          EvOpen (clock n + 2),
          EvSign (Identity n @ ''.'' @ FormatInt (UnixNow env (clock n + 3) + ExpiresTime cfg))]
     \<and> Stream n7 = Some (clock n + 2) \<and> Identity n7 = Identity n \<and> ConfigRoot n7 = ConfigRoot n
     \<and> clock n \<le> clock n7 \<and> dirs n7 = dirs n \<and> files n7 = files n"
  using assms
  by (auto simp: join_request_def Let_def eval_nat_numeral
      split: sum.splits option.splits prod.splits dest!: GetIpInfo_frame)

lemma join_response_frame:
  assumes "join_response env n = (n', r)"
  shows "Stream n' = Stream n \<and> Identity n' = Identity n \<and> ConfigRoot n' = ConfigRoot n
     \<and> clock n \<le> clock n'
     \<and> (\<exists>evs. trace n' = trace n @ evs \<and> quiet evs \<and> (\<forall>s. EvOpen s \<notin> set evs))"
proof -
  obtain n9 r9 where rd: "ReadQuicMsg env n = (n9, r9)" by fastforce
  note f = ReadQuicMsg_frame [OF rd]
  then obtain evs where e: "trace n9 = trace n @ evs" "quiet evs" "\<forall>s. EvOpen s \<notin> set evs" by blast
  have "n' = n9 \<or> (\<exists>cs r'. write_certs env n9 cs = (n', r'))"
    using assms rd
    by (auto simp: join_response_def split: res.splits Data.splits if_splits prod.splits option.splits)
  then show ?thesis
  proof
    assume "n' = n9"
    with f show ?thesis by simp
  next
    assume "\<exists>cs r'. write_certs env n9 cs = (n', r')"
    then obtain cs r' where w: "write_certs env n9 cs = (n', r')" by blast
    from write_certs_frame [OF w] obtain evs' where
      e': "trace n' = trace n9 @ evs'" "quiet evs'" "\<forall>s. EvOpen s \<notin> set evs'"
      and fr: "Stream n' = Stream n9" "Identity n' = Identity n9" "ConfigRoot n' = ConfigRoot n9"
        "clock n9 \<le> clock n'" by blast
    have "trace n' = trace n @ (evs @ evs')" using e e' by simp
    moreover have "quiet (evs @ evs')" using e e' by (auto simp: quiet_def)
    moreover have "\<forall>s. EvOpen s \<notin> set (evs @ evs')" using e e' by simp
    ultimately show ?thesis using f fr by (metis le_trans)
  qed
qed

lemma run_inv_trans:
  assumes "run_inv P a b" and "run_inv P b c"
  shows "run_inv P a c"
proof -
  from assms(1) obtain e1 where 1: "Identity b = Identity a" "ConfigRoot b = ConfigRoot a"
    "clock a \<le> clock b" "trace b = trace a @ e1"
    "\<forall>s m x. EvEncode s m x \<in> set e1 \<longrightarrow> P m \<or> is_join_request m"
    "Stream b = Stream a \<or> (\<exists>s'. Stream b = Some s' \<and> clock a \<le> s' \<and> EvOpen s' \<in> set e1)"
    unfolding run_inv_def by blast
  from assms(2) obtain e2 where 2: "Identity c = Identity b" "ConfigRoot c = ConfigRoot b"
    "clock b \<le> clock c" "trace c = trace b @ e2"
    "\<forall>s m x. EvEncode s m x \<in> set e2 \<longrightarrow> P m \<or> is_join_request m"
    "Stream c = Stream b \<or> (\<exists>s'. Stream c = Some s' \<and> clock b \<le> s' \<and> EvOpen s' \<in> set e2)"
    unfolding run_inv_def by blast
  have t: "trace c = trace a @ (e1 @ e2)" using 1 2 by simp
  have enc: "\<forall>s m x. EvEncode s m x \<in> set (e1 @ e2) \<longrightarrow> P m \<or> is_join_request m"
    using 1(5) 2(5) unfolding set_append Un_iff by blast
  have st: "Stream c = Stream a \<or> (\<exists>s'. Stream c = Some s' \<and> clock a \<le> s' \<and> EvOpen s' \<in> set (e1 @ e2))"
    using 1(3,6) 2(6) by (auto intro: le_trans)
  show ?thesis unfolding run_inv_def using 1(1-3) 2(1-3) t enc st
    by (metis le_trans)
qed

lemma run_inv_mono:
  assumes "run_inv P a b" and "\<And>m. P m \<Longrightarrow> Q m"
  shows "run_inv Q a b"
  using assms unfolding run_inv_def by blast

lemma run_inv_quiet:
  assumes "Identity b = Identity a" "ConfigRoot b = ConfigRoot a" "clock a \<le> clock b"
    "Stream b = Stream a" "trace b = trace a @ evs" "quiet evs"
  shows "run_inv P a b"
  unfolding run_inv_def using assms by (auto simp: quiet_def)

lemma run_inv_join_request_Inl:
  assumes "join_request env n = (n', Inl err)"
  shows "run_inv P n n'"
proof -
  from join_request_Inl [OF assms] obtain pre where
    "Stream n' = Stream n" "Identity n' = Identity n" "ConfigRoot n' = ConfigRoot n"
    "clock n \<le> clock n'" "trace n' = trace n @ EvJoin # pre" "quiet pre" by blast
  then show ?thesis unfolding run_inv_def by (auto simp: quiet_def)
qed

lemma run_inv_join_request_Inr:
  assumes "join_request env n = (n7, Inr message)"
  shows "run_inv P n n7"
proof -
  from join_request_Inr [OF assms] obtain evs where
    "Stream n7 = Some (clock n + 2)" "Identity n7 = Identity n" "ConfigRoot n7 = ConfigRoot n"
    "clock n \<le> clock n7" "trace n7 = trace n @ evs" "EvOpen (clock n + 2) \<in> set evs"
    "\<forall>s m b. EvEncode s m b \<notin> set evs" by fastforce
  then show ?thesis unfolding run_inv_def by auto
qed

lemma run_inv_join_response:
  assumes "join_response env n = (n', r)"
  shows "run_inv P n n'"
proof -
  from join_response_frame [OF assms] obtain evs where
    "Stream n' = Stream n" "Identity n' = Identity n" "ConfigRoot n' = ConfigRoot n"
    "clock n \<le> clock n'" "trace n' = trace n @ evs" "quiet evs" by blast
  then show ?thesis unfolding run_inv_def by (auto simp: quiet_def)
qed

lemma join_request_message:
  assumes "join_request env n = (n7, Inr message)"
  shows "is_join_request message"
  using join_request_Inr [OF assms] by (auto simp: is_join_request_def)

lemma send_join_inv:
  "(SendQuicMsg f env n msg = Some (n', r) \<longrightarrow> run_inv (\<lambda>m. m = msg) n n') \<and>
   (JoinLuanet f env n = Some (n', r') \<longrightarrow> run_inv (\<lambda>m. False) n n')"
proof (induction f arbitrary: n msg n' r r')
  case 0
  show ?case by simp
next
  case (Suc f)
  have send: "run_inv (\<lambda>m. m = msg) n n'" if h: "SendQuicMsg (Suc f) env n msg = Some (n', r)"
  proof (cases "Stream n")
    case None
    with h have "n' = n" by simp
    then show ?thesis by (simp add: run_inv_def)
  next
    case (Some s)
    show ?thesis
    proof (cases "Encode env (clock n) s msg")
      case None
      with h Some have "n' = emit (EvEncode s msg True) (tick n)" by simp
      then show ?thesis by (simp add: run_inv_def)
    next
      case (Some err)
      let ?n1 = "emit (EvLog Error (''Failed to send quic message: %v'' @ err))
                   (emit (EvEncode s msg False) (tick n))"
      from h \<open>Stream n = Some s\<close> Some obtain rj where j: "JoinLuanet f env ?n1 = Some (n', rj)"
        by (auto split: option.splits prod.splits res.splits)
      from Suc.IH [of ?n1 _ n' _ rj] j have "run_inv (\<lambda>m. False) ?n1 n'" by blast
      then have 2: "run_inv (\<lambda>m. m = msg) ?n1 n'" by (rule run_inv_mono) simp
      have 1: "run_inv (\<lambda>m. m = msg) n ?n1" by (simp add: run_inv_def)
      from 1 2 show ?thesis by (rule run_inv_trans)
    qed
  qed
  have join: "run_inv (\<lambda>m. False) n n'" if h: "JoinLuanet (Suc f) env n = Some (n', r')"
  proof -
    obtain n7 q where jr: "join_request env n = (n7, q)" by fastforce
    show ?thesis
    proof (cases q)
      case (Inl err)
      with h jr have "n' = n7" by (simp add: JoinLuanet_Suc)
      with jr Inl show ?thesis by (simp add: run_inv_join_request_Inl)
    next
      case (Inr message)
      from h jr Inr obtain n8 r8 where s: "SendQuicMsg f env n7 message = Some (n8, r8)"
        by (auto simp: JoinLuanet_Suc split: option.splits)
      from Suc.IH [of n7 message n8 r8] s have "run_inv (\<lambda>m. m = message) n7 n8" by blast
      then have 2: "run_inv (\<lambda>m. False) n7 n8"
        unfolding run_inv_def using join_request_message [OF jr [unfolded Inr]] by auto
      have 1: "run_inv (\<lambda>m. False) n n7" using jr Inr by (simp add: run_inv_join_request_Inr)
      have 12: "run_inv (\<lambda>m. False) n n8" using 1 2 by (rule run_inv_trans)
      show ?thesis
      proof (cases r8)
        case Panics
        with h jr Inr s have "n' = n8" by (simp add: JoinLuanet_Suc)
        with 12 show ?thesis by simp
      next
        case (Returns u)
        with h jr Inr s have "join_response env n8 = (n', r')" by (simp add: JoinLuanet_Suc)
        then have "run_inv (\<lambda>m. False) n8 n'" by (rule run_inv_join_response)
        with 12 show ?thesis by (rule run_inv_trans)
      qed
    qed
  qed
  from send join show ?case by blast
qed

section \<open>Receiving\<close>

text \<open>
  Claim C5, as stated: on every decode or transport error \<^verbatim>\<open>ReadQuicMsg\<close> returns the zero
  envelope. It fails when the decoder has stored a field before it fails: a frame whose
  payload names a type that the node has not registered, or a stream that breaks in the
  middle of a frame, leaves the service tag in the result, and \<^verbatim>\<open>ReadQuicMsg\<close> returns
  the result as it is.
\<close>

theorem ReadQuicMsg_zero_envelope_counterexample:
  "snd (Decode ex_env_partial (clock ex_node) 0) \<noteq> None \<and>
   snd (ReadQuicMsg ex_env_partial ex_node) \<noteq> Returns (zero_Proto ex_env_partial)"
  by (simp add: ReadQuicMsg_def ex_env_partial_def ex_env_def ex_node_def zero_Proto_def Let_def)

text \<open>
  Claim C5, amended: on every decode or transport error \<^verbatim>\<open>ReadQuicMsg\<close> logs the error and
  returns its result variable as the decoder left it: what the decoder stored, or the zero
  envelope if it stored nothing. It adds nothing but the log line to the trace, so it
  enters no join and opens no stream, and it leaves \<^verbatim>\<open>n.Stream\<close> as it was.
\<close>

theorem ReadQuicMsg_error_logs_without_rejoin:
  assumes "Stream n = Some s" and "Decode env (clock n) s = (stored, Some e)"
  shows "\<exists>n'. ReadQuicMsg env n = (n', Returns (case stored of None \<Rightarrow> zero_Proto env | Some m \<Rightarrow> m))
     \<and> trace n' = trace n @ [EvLog Error (''Failed to read quic message: %v'' @ e)]
     \<and> Stream n' = Stream n"
  using assms by (simp add: ReadQuicMsg_def Let_def)

theorem ReadQuicMsg_error_logs_without_rejoin_witness:
  "Stream ex_node = Some 0 \<and> Decode ex_env_eof (clock ex_node) 0 = (None, Some ''EOF'') \<and>
   (\<exists>n'. ReadQuicMsg ex_env_eof ex_node = (n', Returns (zero_Proto ex_env_eof))
     \<and> trace n' = trace ex_node @ [EvLog Error ''Failed to read quic message: %vEOF'']
     \<and> Stream n' = Stream ex_node)"
  using ReadQuicMsg_error_logs_without_rejoin [of ex_node 0 ex_env_eof None "''EOF''"]
  by (simp add: ex_env_eof_def ex_env_def ex_node_def)

section \<open>The command dispatcher\<close>

text \<open>
  Claim C6: when a command message arrives whose service tag is not the one tag that the
  dispatcher's \<^verbatim>\<open>switch\<close> names, the iteration of \<^verbatim>\<open>CmdHandlers\<close> returns without an
  error and leaves the trace as it was: no envelope is encoded, nothing is logged.
\<close>

theorem CmdHandlers_unrecognized_tag_no_response:
  assumes "Stream n = Some s" and "Decode env (clock n) s = (Some msg, None)"
    and "Service msg \<noteq> SpeedTestService"
  shows "CmdHandlers_tick f env n = Some (tick n, Returns ()) \<and> trace (tick n) = trace n"
  using assms by (simp add: CmdHandlers_tick_def ReadQuicMsg_def Let_def split: Service.splits)

theorem CmdHandlers_unrecognized_tag_no_response_witness:
  "Stream ex_node = Some 0 \<and>
   Decode ex_env_cmd (clock ex_node) 0 = (Some \<lparr>Service = OtherService 7, Data = DOther 1\<rparr>, None) \<and>
   Service \<lparr>Service = OtherService 7, Data = DOther 1\<rparr> \<noteq> SpeedTestService \<and>
   CmdHandlers_tick 0 ex_env_cmd ex_node = Some (tick ex_node, Returns ()) \<and>
   trace (tick ex_node) = trace ex_node"
  using CmdHandlers_unrecognized_tag_no_response
    [of ex_node 0 ex_env_cmd "\<lparr>Service = OtherService 7, Data = DOther 1\<rparr>" 0]
  by (simp add: ex_env_cmd_def ex_env_def ex_node_def)

text \<open>
  More than the claim asks: with the body of the \<^verbatim>\<open>SpeedTestService\<close> case commented out,
  no run of the dispatcher encodes an envelope or enters a join, whatever arrives.
\<close>

lemma CmdHandlers_tick_never_sends:
  assumes "CmdHandlers_tick f env n = Some (n', r)"
  shows "\<exists>evs. trace n' = trace n @ evs \<and> quiet evs"
  using assms ReadQuicMsg_frame [of env n]
  by (auto simp: CmdHandlers_tick_def Let_def split: prod.splits res.splits Service.splits)

lemma CmdHandlers_never_sends:
  assumes "CmdHandlers k f env n = Some (n', r)"
  shows "\<exists>evs. trace n' = trace n @ evs \<and> quiet evs"
  using assms
proof (induction k arbitrary: n)
  case 0
  then show ?case by (simp add: quiet_def)
next
  case (Suc k)
  then obtain n1 r1 where t: "CmdHandlers_tick f env n = Some (n1, r1)"
    by (auto split: option.splits)
  from CmdHandlers_tick_never_sends [OF t] obtain e1 where e1: "trace n1 = trace n @ e1" "quiet e1" by blast
  show ?case
  proof (cases r1)
    case Panics
    with Suc.prems t have "n' = n1" by simp
    with e1 show ?thesis by blast
  next
    case (Returns u)
    with Suc.prems t have "CmdHandlers k f env n1 = Some (n', r)" by simp
    from Suc.IH [OF this] obtain e2 where "trace n' = trace n1 @ e2" "quiet e2" by blast
    with e1 have "trace n' = trace n @ (e1 @ e2)" "quiet (e1 @ e2)" by (auto simp: quiet_def)
    then show ?thesis by blast
  qed
qed

section \<open>Traces of a send and of a join\<close>

lemma JoinLuanet_inv:
  assumes "JoinLuanet f env n = Some (n', r)"
  shows "run_inv (\<lambda>m. False) n n'"
  using send_join_inv [of f env n _ n' _ r] assms by blast

lemma SendQuicMsg_inv:
  assumes "SendQuicMsg f env n msg = Some (n', r)"
  shows "run_inv (\<lambda>m. m = msg) n n'"
  using send_join_inv [of f env n msg n' r] assms by blast

lemma JoinLuanet_encodes:
  assumes "JoinLuanet f env n = Some (n', r)"
  shows "\<exists>evs. trace n' = trace n @ evs \<and> (\<forall>s m b. EvEncode s m b \<in> set evs \<longrightarrow> is_join_request m)"
  using JoinLuanet_inv [OF assms] by (auto simp: run_inv_def)

lemma SendQuicMsg_trace:
  assumes "Stream n = Some s" and "SendQuicMsg f env n msg = Some (n', r)"
  shows "\<exists>rest. trace n' = trace n @ EvEncode s msg (Encode env (clock n) s msg = None) # rest
     \<and> (\<forall>s' m b. EvEncode s' m b \<in> set rest \<longrightarrow> is_join_request m)"
proof (cases f)
  case 0
  with assms show ?thesis by simp
next
  case (Suc f')
  show ?thesis
  proof (cases "Encode env (clock n) s msg")
    case None
    with assms Suc have "n' = emit (EvEncode s msg True) (tick n)" by simp
    with None show ?thesis by simp
  next
    case (Some err)
    let ?n1 = "emit (EvLog Error (''Failed to send quic message: %v'' @ err))
                 (emit (EvEncode s msg False) (tick n))"
    from assms Suc Some obtain rj where j: "JoinLuanet f' env ?n1 = Some (n', rj)"
      by (auto split: option.splits prod.splits res.splits)
    from JoinLuanet_encodes [OF j] obtain evs where "trace n' = trace ?n1 @ evs"
      "\<forall>s' m b. EvEncode s' m b \<in> set evs \<longrightarrow> is_join_request m"
      by blast
    then have "trace n' = trace n @ EvEncode s msg False
         # (EvLog Error (''Failed to send quic message: %v'' @ err) # evs)"
      "\<forall>s' m b. EvEncode s' m b \<in> set (EvLog Error (''Failed to send quic message: %v'' @ err) # evs)
          \<longrightarrow> is_join_request m"
      by simp_all
    with Some show ?thesis by auto
  qed
qed

lemma quiet_takeWhile:
  assumes "quiet pre"
  shows "takeWhile (\<lambda>e. \<not> is_encode e) (pre @ EvEncode s m b # later) = pre"
    and "takeWhile (\<lambda>e. \<not> is_encode e) pre = pre"
    and "filter is_join pre = []"
  using assms by (auto simp: quiet_def takeWhile_append2 filter_empty_conv)

lemma JoinLuanet_trace:
  assumes "JoinLuanet f env n = Some (n', r)"
  shows "\<exists>rest. trace n' = trace n @ EvJoin # rest
     \<and> filter is_join (takeWhile (\<lambda>e. \<not> is_encode e) rest) = []
     \<and> (\<forall>s m b. EvEncode s m b \<in> set rest \<longrightarrow> is_join_request m)"
proof (cases f)
  case 0
  with assms show ?thesis by simp
next
  case (Suc f')
  from JoinLuanet_encodes [OF assms] obtain evs where
    evs: "trace n' = trace n @ evs" "\<forall>s m b. EvEncode s m b \<in> set evs \<longrightarrow> is_join_request m"
    by blast
  obtain n7 q where jr: "join_request env n = (n7, q)" by fastforce
  have "\<exists>rest. trace n' = trace n @ EvJoin # rest
     \<and> filter is_join (takeWhile (\<lambda>e. \<not> is_encode e) rest) = []"
  proof (cases q)
    case (Inl err)
    with assms Suc jr have "n' = n7" by (simp add: JoinLuanet_Suc)
    with join_request_Inl [OF jr [unfolded Inl]] obtain pre where
      "trace n' = trace n @ EvJoin # pre" "quiet pre" by blast
    then have "trace n' = trace n @ EvJoin # pre"
      and "filter is_join (takeWhile (\<lambda>e. \<not> is_encode e) pre) = []"
      by (simp_all add: quiet_takeWhile(2,3))
    then show ?thesis by blast
  next
    case (Inr message)
    from join_request_Inr [OF jr [unfolded Inr]] obtain pre where
      pre: "trace n7 = trace n @ EvJoin # pre" "quiet pre" and st: "Stream n7 = Some (clock n + 2)"
      by (fastforce simp: quiet_def)
    from assms Suc jr Inr obtain n8 r8 where s: "SendQuicMsg f' env n7 message = Some (n8, r8)"
      by (auto simp: JoinLuanet_Suc split: option.splits)
    from SendQuicMsg_trace [OF st s] obtain b later where
      t8: "trace n8 = trace n7 @ EvEncode (clock n + 2) message b # later" by blast
    have "\<exists>post. trace n' = trace n8 @ post"
    proof (cases r8)
      case Panics
      with assms Suc jr Inr s have "n' = n8" by (simp add: JoinLuanet_Suc)
      then show ?thesis by simp
    next
      case (Returns u)
      with assms Suc jr Inr s have "join_response env n8 = (n', r)" by (simp add: JoinLuanet_Suc)
      from join_response_frame [OF this] show ?thesis by blast
    qed
    then obtain post where "trace n' = trace n8 @ post" by blast
    with t8 pre have "trace n' = trace n @ EvJoin # (pre @ EvEncode (clock n + 2) message b # (later @ post))"
      by simp
    moreover have "filter is_join (takeWhile (\<lambda>e. \<not> is_encode e)
        (pre @ EvEncode (clock n + 2) message b # (later @ post))) = []"
      using quiet_takeWhile(1,3) [OF pre(2)] by simp
    ultimately show ?thesis by blast
  qed
  then obtain rest where rest: "trace n' = trace n @ EvJoin # rest"
    "filter is_join (takeWhile (\<lambda>e. \<not> is_encode e) rest) = []" by blast
  with evs have "evs = EvJoin # rest" by simp
  with evs(2) rest show ?thesis by auto
qed

section \<open>Sending\<close>

text \<open>
  Claim C1, as stated: if the join that follows a failed send fails itself, the error
  propagates to the caller. \<^verbatim>\<open>SendQuicMsg\<close> has no result and drops what \<^verbatim>\<open>JoinLuanet\<close>
  returns: here the encode fails, the join fails with the dial error, and the send returns
  to its caller as a send that worked does.
\<close>

theorem SendQuicMsg_join_error_counterexample:
  "map_option snd (JoinLuanet (Suc 0) ex_env_down
      (emit (EvLog Error (''Failed to send quic message: %v'' @ ''stream closed''))
         (emit (EvEncode 0 ex_heartbeat False) (tick ex_node))))
     = Some (Returns (Inl (LibError ''no route to host''))) \<and>
   map_option snd (SendQuicMsg (Suc (Suc 0)) ex_env_down ex_node ex_heartbeat) = Some (Returns ())"
  by (simp add: JoinLuanet.simps(2) ex_env_down_def ex_env_def ex_node_def ex_cfg_def Let_def)

text \<open>
  Claim C1, amended: if the encode of \<^verbatim>\<open>SendQuicMsg\<close> fails and the call returns, the
  failure is logged and \<^verbatim>\<open>JoinLuanet\<close> is entered next; between the failed encode and
  the next attempt to encode anything there is exactly that one entry into
  \<^verbatim>\<open>JoinLuanet\<close>; every envelope encoded afterwards is a join request built by
  \<^verbatim>\<open>JoinLuanet\<close>, so the original envelope is not sent again; and the call ends as the
  join ends, returning nothing to its caller whether the join returned a response or an
  error.
\<close>

theorem SendQuicMsg_failure_rejoins_once:
  assumes "Stream n = Some s" and "Encode env (clock n) s msg = Some err"
    and "SendQuicMsg f env n msg = Some (n', r)"
  shows "\<exists>rest rj.
       trace n' = trace n @ [EvEncode s msg False,
                            EvLog Error (''Failed to send quic message: %v'' @ err), EvJoin] @ rest
     \<and> filter is_join (takeWhile (\<lambda>e. \<not> is_encode e) (EvJoin # rest)) = [EvJoin]
     \<and> (\<forall>s' m b. EvEncode s' m b \<in> set rest \<longrightarrow> is_join_request m)
     \<and> JoinLuanet (f - 1) env
          (emit (EvLog Error (''Failed to send quic message: %v'' @ err))
             (emit (EvEncode s msg False) (tick n))) = Some (n', rj)
     \<and> (r = Panics \<longleftrightarrow> rj = Panics)"
proof (cases f)
  case 0
  with assms show ?thesis by simp
next
  case (Suc f')
  let ?n1 = "emit (EvLog Error (''Failed to send quic message: %v'' @ err))
               (emit (EvEncode s msg False) (tick n))"
  from assms Suc obtain rj where j: "JoinLuanet f' env ?n1 = Some (n', rj)"
    and r: "r = Panics \<longleftrightarrow> rj = Panics"
    by (auto split: option.splits prod.splits res.splits)
  from JoinLuanet_trace [OF j] obtain rest where
    "trace n' = trace ?n1 @ EvJoin # rest"
    "filter is_join (takeWhile (\<lambda>e. \<not> is_encode e) rest) = []"
    "\<forall>s m b. EvEncode s m b \<in> set rest \<longrightarrow> is_join_request m" by blast
  with j r Suc show ?thesis by simp
qed

theorem SendQuicMsg_failure_rejoins_once_witness:
  "Stream ex_node = Some 0 \<and> Encode ex_env_down (clock ex_node) 0 ex_heartbeat = Some ''stream closed'' \<and>
   (\<exists>n'. SendQuicMsg (Suc (Suc 0)) ex_env_down ex_node ex_heartbeat = Some (n', Returns ()) \<and>
     (\<exists>rest rj.
       trace n' = trace ex_node @ [EvEncode 0 ex_heartbeat False,
                            EvLog Error (''Failed to send quic message: %v'' @ ''stream closed''), EvJoin] @ rest
     \<and> filter is_join (takeWhile (\<lambda>e. \<not> is_encode e) (EvJoin # rest)) = [EvJoin]
     \<and> (\<forall>s' m b. EvEncode s' m b \<in> set rest \<longrightarrow> is_join_request m)
     \<and> JoinLuanet (Suc (Suc 0) - 1) ex_env_down
          (emit (EvLog Error (''Failed to send quic message: %v'' @ ''stream closed''))
             (emit (EvEncode 0 ex_heartbeat False) (tick ex_node))) = Some (n', rj)
     \<and> (Returns () = Panics \<longleftrightarrow> rj = Panics)))"
proof -
  have h1: "Stream ex_node = Some 0" by (simp add: ex_node_def)
  have h2: "Encode ex_env_down (clock ex_node) 0 ex_heartbeat = Some ''stream closed''"
    by (simp add: ex_env_down_def)
  obtain n' where h3: "SendQuicMsg (Suc (Suc 0)) ex_env_down ex_node ex_heartbeat = Some (n', Returns ())"
    by (simp add: JoinLuanet.simps(2) ex_env_down_def ex_env_def ex_node_def ex_cfg_def Let_def)
  from SendQuicMsg_failure_rejoins_once [OF h1 h2 h3] h1 h2 h3 show ?thesis by blast
qed

text \<open>
  Nothing bounds the rejoining: a join sends its request with \<^verbatim>\<open>SendQuicMsg\<close>, whose
  failure joins again. Where streams open but every encode fails, no amount of fuel lets
  the send return.
\<close>

lemma SendQuicMsg_unbounded_rejoin:
  "(Stream n \<noteq> None \<longrightarrow> SendQuicMsg f ex_env_flaky n msg = None) \<and> JoinLuanet f ex_env_flaky n = None"
proof (induction f arbitrary: n msg)
  case 0
  show ?case by simp
next
  case (Suc f)
  have j: "JoinLuanet (Suc f) ex_env_flaky n = None"
  proof -
    obtain n7 q where jr: "join_request ex_env_flaky n = (n7, q)" by fastforce
    then obtain message where q: "q = Inr message" and st: "Stream n7 \<noteq> None"
      by (auto simp: join_request_def ex_env_flaky_def ex_env_def Let_def split: prod.splits)
    from Suc.IH [of n7 message] st have "SendQuicMsg f ex_env_flaky n7 message = None" by blast
    with jr q show ?thesis by (simp add: JoinLuanet_Suc)
  qed
  have s: "SendQuicMsg (Suc f) ex_env_flaky n msg = None" if "Stream n \<noteq> None"
  proof -
    from that obtain s where "Stream n = Some s" by blast
    moreover have "Encode ex_env_flaky (clock n) s msg = Some ''stream closed''"
      by (simp add: ex_env_flaky_def)
    ultimately show ?thesis using Suc.IH by simp
  qed
  from j s show ?case by blast
qed

section \<open>The heartbeat\<close>

lemma HeartBeat_tick_eq:
  "HeartBeat_tick f env n = SendQuicMsg f env (tick n) (heartbeat_of (GetBandwidthTotals env (clock n)))"
  by (simp add: HeartBeat_tick_def heartbeat_of_def Let_def)

text \<open>
  Claim C7: an iteration of \<^verbatim>\<open>HeartBeat\<close> first encodes, on the current stream, the
  heartbeat envelope that carries exactly the totals read from the bandwidth counter at that
  tick, with storage 0. If that encode succeeds the iteration returns and has put nothing
  else on the wire; in any case every other envelope it encodes is a join request. The
  instance after the theorem and \<open>HeartBeat_two_ticks_example\<close> are the claim's example: the counter reads
  (100, 50, 10, 5) and then (150, 70, 12, 6), and the two envelopes carry these values in
  this order.
\<close>

theorem HeartBeat_tick_carries_counter_values:
  assumes "Stream n = Some s"
  shows "(Encode env (Suc (clock n)) s (heartbeat_of (GetBandwidthTotals env (clock n))) = None \<longrightarrow>
           (\<exists>n'. HeartBeat_tick (Suc f) env n = Some (n', Returns ()) \<and>
              trace n' = trace n @ [EvEncode s
                \<lparr>Service = HeartBeatService,
                 Data = DHeartBeatReq
                   \<lparr>Storage = 0,
                    In = TotalIn (GetBandwidthTotals env (clock n)),
                    Out = TotalOut (GetBandwidthTotals env (clock n)),
                    Ingress = RateIn (GetBandwidthTotals env (clock n)),
                    Egress = RateOut (GetBandwidthTotals env (clock n))\<rparr>\<rparr> True]))
       \<and> (\<forall>n' r. HeartBeat_tick f env n = Some (n', r) \<longrightarrow>
           (\<exists>ok rest. trace n' = trace n @ EvEncode s
                \<lparr>Service = HeartBeatService,
                 Data = DHeartBeatReq
                   \<lparr>Storage = 0,
                    In = TotalIn (GetBandwidthTotals env (clock n)),
                    Out = TotalOut (GetBandwidthTotals env (clock n)),
                    Ingress = RateIn (GetBandwidthTotals env (clock n)),
                    Egress = RateOut (GetBandwidthTotals env (clock n))\<rparr>\<rparr> ok # rest
              \<and> (\<forall>s' m b. EvEncode s' m b \<in> set rest \<longrightarrow> is_join_request m)))"
proof (intro conjI impI allI)
  assume "Encode env (Suc (clock n)) s (heartbeat_of (GetBandwidthTotals env (clock n))) = None"
  with assms show "\<exists>n'. HeartBeat_tick (Suc f) env n = Some (n', Returns ()) \<and>
              trace n' = trace n @ [EvEncode s
                \<lparr>Service = HeartBeatService,
                 Data = DHeartBeatReq
                   \<lparr>Storage = 0,
                    In = TotalIn (GetBandwidthTotals env (clock n)),
                    Out = TotalOut (GetBandwidthTotals env (clock n)),
                    Ingress = RateIn (GetBandwidthTotals env (clock n)),
                    Egress = RateOut (GetBandwidthTotals env (clock n))\<rparr>\<rparr> True]"
    by (simp add: HeartBeat_tick_eq) (simp add: heartbeat_of_def)
next
  fix n' r
  assume "HeartBeat_tick f env n = Some (n', r)"
  then have s: "SendQuicMsg f env (tick n) (heartbeat_of (GetBandwidthTotals env (clock n))) = Some (n', r)"
    by (simp add: HeartBeat_tick_eq)
  from assms have st: "Stream (tick n) = Some s" by simp
  from SendQuicMsg_trace [OF st s]
  show "\<exists>ok rest. trace n' = trace n @ EvEncode s
                \<lparr>Service = HeartBeatService,
                 Data = DHeartBeatReq
                   \<lparr>Storage = 0,
                    In = TotalIn (GetBandwidthTotals env (clock n)),
                    Out = TotalOut (GetBandwidthTotals env (clock n)),
                    Ingress = RateIn (GetBandwidthTotals env (clock n)),
                    Egress = RateOut (GetBandwidthTotals env (clock n))\<rparr>\<rparr> ok # rest
              \<and> (\<forall>s' m b. EvEncode s' m b \<in> set rest \<longrightarrow> is_join_request m)"
    by (simp add: heartbeat_of_def) blast
qed

theorem HeartBeat_tick_carries_counter_values_witness:
  "Stream ex_node = Some 0 \<and>
   (\<exists>n'. HeartBeat_tick (Suc 0) ex_env_hb ex_node = Some (n', Returns ()) \<and>
      trace n' = [EvEncode 0 \<lparr>Service = HeartBeatService, Data = DHeartBeatReq ex_stats1\<rparr> True])"
proof -
  have h: "Stream ex_node = Some 0" by (simp add: ex_node_def)
  have e: "Encode ex_env_hb (Suc (clock ex_node)) 0
      (heartbeat_of (GetBandwidthTotals ex_env_hb (clock ex_node))) = None"
    by (simp add: ex_env_hb_def ex_env_def)
  from HeartBeat_tick_carries_counter_values [OF h, of ex_env_hb 0] e
  show ?thesis using h by (simp add: ex_env_hb_def ex_env_def ex_node_def ex_stats1_def)
qed

lemma HeartBeat_two_ticks_example:
  "map_option (\<lambda>(n', r). (trace n', r)) (HeartBeat (Suc (Suc 0)) (Suc 0) ex_env_hb ex_node) =
     Some ([EvEncode 0 \<lparr>Service = HeartBeatService, Data = DHeartBeatReq ex_stats1\<rparr> True,
            EvEncode 0 \<lparr>Service = HeartBeatService, Data = DHeartBeatReq ex_stats2\<rparr> True], Returns ())"
  by (simp add: HeartBeat_tick_def Let_def ex_env_hb_def ex_env_def ex_node_def ex_stats1_def ex_stats2_def)

text \<open>
  Claim C9: whatever the heartbeat loop puts on the wire in any number of iterations, every
  envelope with a heartbeat payload has \<open>Storage = 0\<close>. The loop reads nothing about the
  node's stored content.
\<close>

theorem HeartBeat_storage_always_zero:
  assumes "HeartBeat k f env n = Some (n', r)"
  shows "\<exists>evs. trace n' = trace n @ evs \<and>
     (\<forall>s m st b. EvEncode s m b \<in> set evs \<and> Data m = DHeartBeatReq st \<longrightarrow> Storage st = 0)"
  using assms
proof (induction k arbitrary: n)
  case 0
  then show ?case by simp
next
  case (Suc k)
  then obtain n1 r1 where t: "HeartBeat_tick f env n = Some (n1, r1)"
    by (auto split: option.splits)
  then have "run_inv (\<lambda>m. m = heartbeat_of (GetBandwidthTotals env (clock n))) (tick n) n1"
    by (simp add: HeartBeat_tick_eq SendQuicMsg_inv)
  then obtain e1 where e1: "trace n1 = trace n @ e1"
    "\<forall>s m b. EvEncode s m b \<in> set e1 \<longrightarrow>
       m = heartbeat_of (GetBandwidthTotals env (clock n)) \<or> is_join_request m"
    unfolding run_inv_def by auto
  have z1: "\<forall>s m st b. EvEncode s m b \<in> set e1 \<and> Data m = DHeartBeatReq st \<longrightarrow> Storage st = 0"
  proof (intro allI impI)
    fix s m st b
    assume a: "EvEncode s m b \<in> set e1 \<and> Data m = DHeartBeatReq st"
    with e1(2) have "m = heartbeat_of (GetBandwidthTotals env (clock n)) \<or> is_join_request m" by blast
    with a show "Storage st = 0"
      by (auto simp: heartbeat_of_def is_join_request_def)
  qed
  show ?case
  proof (cases r1)
    case Panics
    with Suc.prems t have "n' = n1" by simp
    with e1 z1 show ?thesis by blast
  next
    case (Returns u)
    with Suc.prems t have "HeartBeat k f env n1 = Some (n', r)" by simp
    from Suc.IH [OF this] obtain e2 where e2: "trace n' = trace n1 @ e2"
      "\<forall>s m st b. EvEncode s m b \<in> set e2 \<and> Data m = DHeartBeatReq st \<longrightarrow> Storage st = 0" by blast
    have "trace n' = trace n @ (e1 @ e2)" using e1 e2 by simp
    moreover have "\<forall>s m st b. EvEncode s m b \<in> set (e1 @ e2) \<and> Data m = DHeartBeatReq st \<longrightarrow> Storage st = 0"
      using z1 e2(2) unfolding set_append Un_iff by blast
    ultimately show ?thesis by blast
  qed
qed

theorem HeartBeat_storage_always_zero_witness:
  "(\<exists>n'. HeartBeat (Suc (Suc 0)) (Suc 0) ex_env_hb ex_node = Some (n', Returns ()) \<and>
     (\<exists>evs. trace n' = trace ex_node @ evs \<and> evs \<noteq> [] \<and>
     (\<forall>s m st b. EvEncode s m b \<in> set evs \<and> Data m = DHeartBeatReq st \<longrightarrow> Storage st = 0)))"
proof -
  obtain n' where h: "HeartBeat (Suc (Suc 0)) (Suc 0) ex_env_hb ex_node = Some (n', Returns ())"
    and t: "trace n' \<noteq> []"
    using HeartBeat_two_ticks_example by (auto simp: map_option_case split: option.splits)
  from HeartBeat_storage_always_zero [OF h] h t show ?thesis
    by (auto simp: ex_node_def)
qed

section \<open>Joining\<close>

lemma ex_env_simps:
  "RepoConfig ex_env t = Inr ex_cfg"
  "DialAddr ex_env t a = None"
  "OpenStreamSync ex_env t = None"
  "UnixNow ex_env t = 1699996400"
  "Sign ex_env t b = Inr (''signed:'' @ b)"
  "HttpGet ex_env t u = Inl ''timeout''"
  "Encode ex_env t s m = None"
  "Decode ex_env t s = (Some \<lparr>Service = JoinService, Data = DJoinRes ex_res\<rparr>, None)"
  "MkdirAll ex_env t p = None"
  "WriteFile ex_env t p c = None"
  "Clean ex_env p = p"
  "ZeroService ex_env = OtherService 0"
  by (simp_all add: ex_env_def)

lemma ex_node_simps:
  "clock ex_node = 0" "trace ex_node = []" "dirs ex_node = {}" "files ex_node = Map.empty"
  "Stream ex_node = Some 0" "Identity ex_node = ''Qm123''" "ConfigRoot ex_node = ''/data''"
  by (simp_all add: ex_node_def)

lemma SendQuicMsg_ok:
  assumes "Stream n = Some s" and "Encode env (clock n) s msg = None"
  shows "SendQuicMsg (Suc f) env n msg = Some (emit (EvEncode s msg True) (tick n), Returns ())"
  using assms by simp

lemma os_MkdirAll_result:
  assumes "os_MkdirAll env n p = (n1, r)"
  shows "files n1 = files n \<and> ConfigRoot n1 = ConfigRoot n \<and> clock n1 = Suc (clock n)
     \<and> trace n1 = trace n @ [EvMkdir p] \<and> dirs n \<subseteq> dirs n1
     \<and> (r = None \<longrightarrow> p \<in> dirs n1)
     \<and> (case MkdirAll env (clock n) p of None \<Rightarrow> r = None | Some e \<Rightarrow> r = Some (LibError e))"
  using assms by (auto simp: os_MkdirAll_def Let_def split: option.splits)

lemma ioutil_WriteFile_result:
  assumes "ioutil_WriteFile env n p c = (n1, r)"
  shows "dirs n1 = dirs n \<and> ConfigRoot n1 = ConfigRoot n \<and> clock n1 = Suc (clock n)
     \<and> trace n1 = trace n @ [EvWrite p c]
     \<and> (\<forall>q. q \<noteq> p \<longrightarrow> files n1 q = files n q)
     \<and> (r = None \<longrightarrow> files n1 p = Some c)
     \<and> (case WriteFile env (clock n) p c of None \<Rightarrow> r = None | Some (e, left) \<Rightarrow> r = Some (LibError e))"
  using assms by (auto simp: ioutil_WriteFile_def Let_def split: option.splits)

lemma paths_cong:
  assumes "ConfigRoot a = ConfigRoot b"
  shows "cert_dir env a = cert_dir env b" "private_pem env a = private_pem env b"
    "cert_pem env a = cert_pem env b"
  using assms by (auto simp: cert_dir_def private_pem_def cert_pem_def)

lemma write_certs_step:
  assumes "write_certs env n ((ip, cert) # cs) = (n', r)"
  shows "(\<exists>n1 e. os_MkdirAll env n (cert_dir env n ip) = (n1, Some e) \<and> n' = n1 \<and> r = Some e)
    \<or> (\<exists>n1 n2 e. os_MkdirAll env n (cert_dir env n ip) = (n1, None)
          \<and> ioutil_WriteFile env n1 (private_pem env n ip) (Privkey (Pems cert)) = (n2, Some e)
          \<and> n' = n2 \<and> r = Some e)
    \<or> (\<exists>n1 n2 n3 r3. os_MkdirAll env n (cert_dir env n ip) = (n1, None)
          \<and> ioutil_WriteFile env n1 (private_pem env n ip) (Privkey (Pems cert)) = (n2, None)
          \<and> ioutil_WriteFile env n2 (cert_pem env n ip) (Cert (Pems cert)) = (n3, r3)
          \<and> write_certs env n3 cs = (n', r))"
proof -
  obtain n1 r1 where m: "os_MkdirAll env n (cert_dir env n ip) = (n1, r1)" by fastforce
  from os_MkdirAll_result [OF m] have c1: "ConfigRoot n1 = ConfigRoot n" by simp
  obtain n2 r2 where w1: "ioutil_WriteFile env n1 (private_pem env n ip) (Privkey (Pems cert)) = (n2, r2)"
    by fastforce
  from ioutil_WriteFile_result [OF w1] c1 have c2: "ConfigRoot n2 = ConfigRoot n" by simp
  obtain n3 r3 where w2: "ioutil_WriteFile env n2 (cert_pem env n ip) (Cert (Pems cert)) = (n3, r3)"
    by fastforce
  from assms m w1 w2 paths_cong [OF c1, of env] paths_cong [OF c2, of env] show ?thesis
    by (cases r1; cases r2) auto
qed

lemma write_certs_keeps:
  assumes "write_certs env n cs = (n', r)"
  shows "dirs n \<subseteq> dirs n' \<and> ConfigRoot n' = ConfigRoot n
     \<and> (\<forall>q. q \<notin> set (map (private_pem env n) (map fst cs)) \<and> q \<notin> set (map (cert_pem env n) (map fst cs))
            \<longrightarrow> files n' q = files n q)"
  using assms
proof (induction cs arbitrary: n)
  case Nil
  then show ?case by simp
next
  case (Cons a cs)
  obtain ip cert where a: "a = (ip, cert)" by (cases a)
  from write_certs_step [OF Cons.prems [unfolded a]]
  show ?case
  proof (elim disjE exE conjE)
    fix n1 e
    assume "os_MkdirAll env n (cert_dir env n ip) = (n1, Some e)" "n' = n1"
    with os_MkdirAll_result [of env n _ n1 "Some e"] show ?thesis by auto
  next
    fix n1 n2 e
    assume "os_MkdirAll env n (cert_dir env n ip) = (n1, None)"
      "ioutil_WriteFile env n1 (private_pem env n ip) (Privkey (Pems cert)) = (n2, Some e)" "n' = n2"
    with os_MkdirAll_result [of env n _ n1 None] ioutil_WriteFile_result [of env n1 _ _ n2 "Some e"]
    show ?thesis unfolding a by auto
  next
    fix n1 n2 n3 r3
    assume m: "os_MkdirAll env n (cert_dir env n ip) = (n1, None)"
      and w1: "ioutil_WriteFile env n1 (private_pem env n ip) (Privkey (Pems cert)) = (n2, None)"
      and w2: "ioutil_WriteFile env n2 (cert_pem env n ip) (Cert (Pems cert)) = (n3, r3)"
      and rest: "write_certs env n3 cs = (n', r)"
    note f1 = os_MkdirAll_result [OF m] and f2 = ioutil_WriteFile_result [OF w1]
      and f3 = ioutil_WriteFile_result [OF w2]
    have c3: "ConfigRoot n3 = ConfigRoot n" using f1 f2 f3 by simp
    note ih = Cons.IH [OF rest, unfolded paths_cong [OF c3]]
    have "dirs n \<subseteq> dirs n'" using f1 f2 f3 ih by blast
    moreover have "ConfigRoot n' = ConfigRoot n" using ih c3 by simp
    moreover have "\<forall>q. q \<notin> set (map (private_pem env n) (map fst (a # cs)))
            \<and> q \<notin> set (map (cert_pem env n) (map fst (a # cs))) \<longrightarrow> files n' q = files n q"
      using f1 f2 f3 ih unfolding a by auto
    ultimately show ?thesis by blast
  qed
qed

lemma write_certs_files:
  assumes "write_certs env n cs = (n', None)"
    and "distinct (map (private_pem env n) (map fst cs) @ map (cert_pem env n) (map fst cs))"
  shows "\<forall>ip c. (ip, c) \<in> set cs \<longrightarrow>
       cert_dir env n ip \<in> dirs n'
     \<and> files n' (private_pem env n ip) = Some (Privkey (Pems c))
     \<and> ((\<forall>t. WriteFile env t (cert_pem env n ip) (Cert (Pems c)) = None) \<longrightarrow>
           files n' (cert_pem env n ip) = Some (Cert (Pems c)))"
  using assms
proof (induction cs arbitrary: n)
  case Nil
  then show ?case by simp
next
  case (Cons a cs)
  obtain ip cert where a: "a = (ip, cert)" by (cases a)
  from write_certs_step [OF Cons.prems(1) [unfolded a]]
  obtain n1 n2 n3 r3 where m: "os_MkdirAll env n (cert_dir env n ip) = (n1, None)"
      and w1: "ioutil_WriteFile env n1 (private_pem env n ip) (Privkey (Pems cert)) = (n2, None)"
      and w2: "ioutil_WriteFile env n2 (cert_pem env n ip) (Cert (Pems cert)) = (n3, r3)"
      and rest: "write_certs env n3 cs = (n', None)"
    by auto
  note f1 = os_MkdirAll_result [OF m] and f2 = ioutil_WriteFile_result [OF w1]
    and f3 = ioutil_WriteFile_result [OF w2]
  have c3: "ConfigRoot n3 = ConfigRoot n" using f1 f2 f3 by simp
  note keep = write_certs_keeps [OF rest, unfolded paths_cong [OF c3]]
  have r3: "r3 = None" if "\<forall>t. WriteFile env t (cert_pem env n ip) (Cert (Pems cert)) = None"
    using f3 that by (auto split: option.splits)
  have d: "private_pem env n ip \<noteq> cert_pem env n ip"
    "private_pem env n ip \<notin> set (map (private_pem env n) (map fst cs))"
    "private_pem env n ip \<notin> set (map (cert_pem env n) (map fst cs))"
    "cert_pem env n ip \<notin> set (map (private_pem env n) (map fst cs))"
    "cert_pem env n ip \<notin> set (map (cert_pem env n) (map fst cs))"
    using Cons.prems(2) unfolding a by auto
  have hd1: "cert_dir env n ip \<in> dirs n' \<and> files n' (private_pem env n ip) = Some (Privkey (Pems cert))"
    using f1 f2 f3 keep d by auto
  have hd2: "files n' (cert_pem env n ip) = Some (Cert (Pems cert))"
    if "\<forall>t. WriteFile env t (cert_pem env n ip) (Cert (Pems cert)) = None"
    using f3 r3 [OF that] keep d by auto
  have "distinct (map (private_pem env n) (map fst cs) @ map (cert_pem env n) (map fst cs))"
    using Cons.prems(2) unfolding a by auto
  then have tl: "\<forall>ip c. (ip, c) \<in> set cs \<longrightarrow>
       cert_dir env n ip \<in> dirs n'
     \<and> files n' (private_pem env n ip) = Some (Privkey (Pems c))
     \<and> ((\<forall>t. WriteFile env t (cert_pem env n ip) (Cert (Pems c)) = None) \<longrightarrow>
           files n' (cert_pem env n ip) = Some (Cert (Pems c)))"
    using Cons.IH [OF rest, unfolded paths_cong [OF c3]] by blast
  from hd1 hd2 tl show ?case unfolding a by auto
qed




lemma write_certs_cert_pem_failure:
  assumes "MkdirAll env (clock n) (cert_dir env n ip) = None"
    and "WriteFile env (clock n + 1) (private_pem env n ip) (Privkey (Pems cert)) = None"
    and "WriteFile env (clock n + 2) (cert_pem env n ip) (Cert (Pems cert)) = Some (e, left)"
    and "private_pem env n ip \<noteq> cert_pem env n ip"
  shows "\<exists>n3. write_certs env n ((ip, cert) # rest) = write_certs env n3 rest
     \<and> trace n3 = trace n @ [EvMkdir (cert_dir env n ip),
                              EvWrite (private_pem env n ip) (Privkey (Pems cert)),
                              EvWrite (cert_pem env n ip) (Cert (Pems cert))]
     \<and> cert_dir env n ip \<in> dirs n3
     \<and> files n3 (private_pem env n ip) = Some (Privkey (Pems cert))
     \<and> files n3 (cert_pem env n ip) = left
     \<and> ConfigRoot n3 = ConfigRoot n"
proof -
  obtain n1 r1 where m: "os_MkdirAll env n (cert_dir env n ip) = (n1, r1)" by fastforce
  note f1 = os_MkdirAll_result [OF m]
  with assms(1) have r1: "r1 = None" by simp
  from f1 have c1: "ConfigRoot n1 = ConfigRoot n" and k1: "clock n1 = clock n + 1" by simp_all
  obtain n2 r2 where w1: "ioutil_WriteFile env n1 (private_pem env n ip) (Privkey (Pems cert)) = (n2, r2)"
    by fastforce
  note f2 = ioutil_WriteFile_result [OF w1]
  with assms(2) k1 have r2: "r2 = None" by simp
  from f2 c1 k1 have c2: "ConfigRoot n2 = ConfigRoot n" and k2: "clock n2 = clock n + 2" by simp_all
  obtain n3 r3 where w2: "ioutil_WriteFile env n2 (cert_pem env n ip) (Cert (Pems cert)) = (n3, r3)"
    by fastforce
  note f3 = ioutil_WriteFile_result [OF w2]
  have l: "files n3 (cert_pem env n ip) = left"
    using w2 assms(3) k2 by (auto simp: ioutil_WriteFile_def Let_def)
  have "write_certs env n ((ip, cert) # rest) = write_certs env n3 rest"
    using m r1 w1 r2 w2 paths_cong [OF c1, of env] paths_cong [OF c2, of env] by simp
  moreover have "files n3 (private_pem env n ip) = Some (Privkey (Pems cert))"
    using f2 f3 r2 assms(4) by simp
  moreover have "cert_dir env n ip \<in> dirs n3" using f1 f2 f3 r1 by simp
  ultimately show ?thesis using f1 f2 f3 c2 l by auto
qed

lemma join_response_Inr:
  assumes "join_response env n = (n', Returns (Inr res))"
  shows "\<exists>n9. Success res \<and> write_certs env n9 (Certs res) = (n', None) \<and> ConfigRoot n9 = ConfigRoot n"
proof -
  obtain n9 r9 where rd: "ReadQuicMsg env n = (n9, r9)" by fastforce
  from ReadQuicMsg_frame [OF rd] have "ConfigRoot n9 = ConfigRoot n" by simp
  moreover from assms rd have "Success res \<and> write_certs env n9 (Certs res) = (n', None)"
    by (auto simp: join_response_def split: res.splits Data.splits if_splits prod.splits option.splits)
  ultimately show ?thesis by blast
qed

lemma write_certs_succeeds:
  assumes "\<forall>t p. MkdirAll env t p = None" and "\<forall>t p c. WriteFile env t p c = None"
  shows "\<exists>n'. write_certs env n cs = (n', None)"
proof (induction cs arbitrary: n)
  case Nil
  show ?case by simp
next
  case (Cons a cs)
  obtain ip cert where a: "a = (ip, cert)" by (cases a)
  show ?case unfolding a using assms Cons.IH
    by (simp add: os_MkdirAll_def ioutil_WriteFile_def Let_def)
qed

lemma join_request_signs:
  assumes "RepoConfig env (clock n) = Inr cfg"
    and "DialAddr env (clock n + 1) (Api cfg) = None"
    and "OpenStreamSync env (clock n + 2) = None"
    and "Sign env (clock n + 4)
           (Identity n @ ''.'' @ FormatInt (UnixNow env (clock n + 3) + ExpiresTime cfg)) = Inr sg"
  shows "\<exists>n7 ip4 ip6. join_request env n =
       (n7, Inr \<lparr>Service = JoinService,
                 Data = DJoinReq \<lparr>Address = Identity n, Ipv4 = ip4, Ipv6 = ip6, Signature = sg,
                                  Expires = UnixNow env (clock n + 3) + ExpiresTime cfg\<rparr>\<rparr>)
     \<and> trace n7 = trace n @ [EvJoin, EvLog Info (''Connecting to node address: '' @ Api cfg),
          EvOpen (clock n + 2),
          EvSign (Identity n @ ''.'' @ FormatInt (UnixNow env (clock n + 3) + ExpiresTime cfg))]
     \<and> Stream n7 = Some (clock n + 2)"
proof -
  obtain n7 q where jr: "join_request env n = (n7, q)" by fastforce
  show ?thesis
  proof (cases q)
    case (Inl e)
    with jr assms show ?thesis
      by (auto simp: join_request_def Let_def eval_nat_numeral split: prod.splits)
  next
    case (Inr message)
    from join_request_Inr [OF jr [unfolded Inr]] assms jr Inr show ?thesis by auto
  qed
qed

lemma JoinLuanet_accepted:
  assumes "\<forall>t. RepoConfig env t = Inr cfg" and "\<forall>t a. DialAddr env t a = None"
    and "\<forall>t. OpenStreamSync env t = None" and "\<forall>t b. \<exists>sg. Sign env t b = Inr sg"
    and "\<forall>t s m. Encode env t s m = None"
    and "\<forall>t s. Decode env t s = (Some \<lparr>Service = sv, Data = DJoinRes res\<rparr>, derr)" and "Success res"
  shows "\<exists>n9. ConfigRoot n9 = ConfigRoot n \<and>
     JoinLuanet (Suc (Suc f)) env n =
       Some (case write_certs env n9 (Certs res) of
               (n10, None) \<Rightarrow> (n10, Returns (Inr res))
             | (n10, Some err) \<Rightarrow> (n10, Returns (Inl err)))"
proof -
  from assms(4) obtain sg where sg: "Sign env (clock n + 4)
      (Identity n @ ''.'' @ FormatInt (UnixNow env (clock n + 3) + ExpiresTime cfg)) = Inr sg" by blast
  have "RepoConfig env (clock n) = Inr cfg" "DialAddr env (clock n + 1) (Api cfg) = None"
    "OpenStreamSync env (clock n + 2) = None" using assms(1-3) by simp_all
  from join_request_signs [OF this sg] obtain n7 message where
    jr: "join_request env n = (n7, Inr message)" and st: "Stream n7 = Some (clock n + 2)" by blast
  from join_request_Inr [OF jr] have c7: "ConfigRoot n7 = ConfigRoot n" by blast
  let ?n8 = "emit (EvEncode (clock n + 2) message True) (tick n7)"
  from SendQuicMsg_ok [OF st] assms(5)
  have s: "SendQuicMsg (Suc f) env n7 message = Some (?n8, Returns ())" by blast
  have rd: "ReadQuicMsg env ?n8 = (tick ?n8, Returns \<lparr>Service = sv, Data = DJoinRes res\<rparr>)
      \<or> (\<exists>e. ReadQuicMsg env ?n8 = (emit e (tick ?n8), Returns \<lparr>Service = sv, Data = DJoinRes res\<rparr>))"
    using st assms(6) by (cases derr) (auto simp: ReadQuicMsg_def Let_def)
  then obtain n9 where rd9: "ReadQuicMsg env ?n8 = (n9, Returns \<lparr>Service = sv, Data = DJoinRes res\<rparr>)"
    and c9: "ConfigRoot n9 = ConfigRoot n7" by auto
  from rd9 assms(7) have "join_response env ?n8 =
      (case write_certs env n9 (Certs res) of
         (n10, None) \<Rightarrow> (n10, Returns (Inr res))
       | (n10, Some err) \<Rightarrow> (n10, Returns (Inl err)))"
    by (simp add: join_response_def split: prod.splits option.splits)
  with jr s c7 c9 show ?thesis by (auto simp: JoinLuanet_Suc)
qed

lemma JoinLuanet_succeeds:
  assumes "\<forall>t. RepoConfig env t = Inr cfg" and "\<forall>t a. DialAddr env t a = None"
    and "\<forall>t. OpenStreamSync env t = None" and "\<forall>t b. \<exists>sg. Sign env t b = Inr sg"
    and "\<forall>t s m. Encode env t s m = None"
    and "\<forall>t s. Decode env t s = (Some \<lparr>Service = sv, Data = DJoinRes res\<rparr>, derr)" and "Success res"
    and "\<forall>t p. MkdirAll env t p = None" and "\<forall>t p c. WriteFile env t p c = None"
  shows "\<exists>n'. JoinLuanet (Suc (Suc f)) env n = Some (n', Returns (Inr res))"
proof -
  from JoinLuanet_accepted [OF assms(1-7)] obtain n9 where
    j: "JoinLuanet (Suc (Suc f)) env n =
       Some (case write_certs env n9 (Certs res) of
               (n10, None) \<Rightarrow> (n10, Returns (Inr res))
             | (n10, Some err) \<Rightarrow> (n10, Returns (Inl err)))" by blast
  from write_certs_succeeds [OF assms(8,9)] obtain n' where "write_certs env n9 (Certs res) = (n', None)"
    by blast
  with j show ?thesis by simp
qed

lemma join_request_error:
  assumes "join_request env n = (n', Inl e)"
  shows "\<exists>t. e = LibError t"
  using assms
  by (auto simp: join_request_def Let_def split: sum.splits option.splits prod.splits)

lemma write_certs_error:
  assumes "write_certs env n cs = (n', Some e)"
  shows "\<exists>t. e = LibError t"
  using assms
proof (induction cs arbitrary: n)
  case Nil
  then show ?case by simp
next
  case (Cons a cs)
  obtain ip cert where a: "a = (ip, cert)" by (cases a)
  from Cons.prems show ?case unfolding a
    by (auto simp: os_MkdirAll_def ioutil_WriteFile_def Let_def
        split: prod.splits option.splits dest: Cons.IH)
qed

lemma join_response_Errorf:
  assumes "join_response env n = (n', Returns (Inl (Errorf m)))"
  shows "\<exists>s stored err jr. Stream n = Some s \<and> Decode env (clock n) s = (Some stored, err)
     \<and> Data stored = DJoinRes jr \<and> \<not> Success jr
     \<and> m = ''Failed to join lua network: '' @ Message jr"
  using assms
  by (auto simp: join_response_def ReadQuicMsg_def Let_def zero_Proto_def
      split: option.splits prod.splits res.splits Data.splits if_splits
      dest: write_certs_error)

lemma ex_paths:
  "cert_dir ex_env ex_node ip = ''/data/certs/'' @ ip"
  "private_pem ex_env ex_node ip = ''/data/certs/'' @ ip @ ''/private.pem''"
  "cert_pem ex_env ex_node ip = ''/data/certs/'' @ ip @ ''/cert.pem''"
  by (simp_all add: cert_dir_def private_pem_def cert_pem_def ex_env_simps ex_node_simps)

text \<open>
  Claim C10: \<^verbatim>\<open>JoinLuanet\<close> assigns \<^verbatim>\<open>n.Stream\<close> before it sends the request and reads the
  response. So whenever it returns the error it builds for a rejected join, \<^verbatim>\<open>n.Stream\<close>
  holds a stream \<open>s\<close> that was opened during this call (not before it: streams are named
  by the clock at which they are opened), the rejecting response was read from that very
  stream, and the stream that the node held before the call, opened earlier, has not been
  put back.
\<close>

theorem JoinLuanet_rejected_keeps_new_stream:
  assumes "JoinLuanet f env n = Some (n', Returns (Inl (Errorf m)))"
  shows "\<exists>s evs t stored err jr.
       Stream n' = Some s \<and> clock n \<le> s \<and> trace n' = trace n @ evs \<and> EvOpen s \<in> set evs
     \<and> Decode env t s = (Some stored, err) \<and> Data stored = DJoinRes jr \<and> \<not> Success jr
     \<and> m = ''Failed to join lua network: '' @ Message jr
     \<and> ((\<forall>s0. Stream n = Some s0 \<longrightarrow> s0 < clock n) \<longrightarrow> Stream n' \<noteq> Stream n)"
proof (cases f)
  case 0
  with assms show ?thesis by simp
next
  case (Suc f')
  obtain n7 q where jr: "join_request env n = (n7, q)" by fastforce
  show ?thesis
  proof (cases q)
    case (Inl e)
    with assms Suc jr join_request_error [of env n n7 e] show ?thesis
      by (auto simp: JoinLuanet_Suc)
  next
    case (Inr message)
    from join_request_Inr [OF jr [unfolded Inr]] obtain e1 where
      1: "trace n7 = trace n @ e1" "EvOpen (clock n + 2) \<in> set e1" "Stream n7 = Some (clock n + 2)"
        "clock n \<le> clock n7" by fastforce
    from assms Suc jr Inr obtain n8 r8 where s: "SendQuicMsg f' env n7 message = Some (n8, r8)"
      by (auto simp: JoinLuanet_Suc split: option.splits)
    from assms Suc jr Inr s have resp: "join_response env n8 = (n', Returns (Inl (Errorf m)))"
      by (cases r8) (simp_all add: JoinLuanet_Suc)
    from SendQuicMsg_inv [OF s] obtain e2 where
      2: "trace n8 = trace n7 @ e2"
        "Stream n8 = Stream n7 \<or> (\<exists>s'. Stream n8 = Some s' \<and> clock n7 \<le> s' \<and> EvOpen s' \<in> set e2)"
      unfolding run_inv_def by blast
    from join_response_frame [OF resp] obtain e3 where
      3: "trace n' = trace n8 @ e3" "Stream n' = Stream n8" by blast
    from join_response_Errorf [OF resp] obtain s stored err jr where
      4: "Stream n8 = Some s" "Decode env (clock n8) s = (Some stored, err)"
        "Data stored = DJoinRes jr" "\<not> Success jr" "m = ''Failed to join lua network: '' @ Message jr"
      by blast
    have tr: "trace n' = trace n @ (e1 @ e2 @ e3)" using 1 2 3 by simp
    have op: "clock n \<le> s \<and> EvOpen s \<in> set (e1 @ e2 @ e3)"
      using 1 2(2) 4(1) by auto
    have "Stream n' = Some s" using 3 4 by simp
    moreover have "(\<forall>s0. Stream n = Some s0 \<longrightarrow> s0 < clock n) \<longrightarrow> Stream n' \<noteq> Stream n"
      using op \<open>Stream n' = Some s\<close> by (metis leD)
    ultimately show ?thesis using tr op 4 by blast
  qed
qed

theorem JoinLuanet_rejected_keeps_new_stream_witness:
  "\<exists>n'. JoinLuanet (Suc (Suc 0)) ex_env_rejecting (ex_node\<lparr>clock := 5\<rparr>)
        = Some (n', Returns (Inl (Errorf ''Failed to join lua network: bad signature'')))
     \<and> Stream (ex_node\<lparr>clock := 5\<rparr>) = Some 0 \<and> Stream n' = Some 7"
proof -
  obtain n' where h: "JoinLuanet (Suc (Suc 0)) ex_env_rejecting (ex_node\<lparr>clock := 5\<rparr>)
        = Some (n', Returns (Inl (Errorf ''Failed to join lua network: bad signature'')))"
    and s: "Stream n' = Some 7"
    by (simp add: JoinLuanet.simps(2) GetIpInfo_def ReadQuicMsg_def ex_env_rejecting_def ex_env_def
        ex_node_def ex_cfg_def ex_rejected_def Let_def)
  from JoinLuanet_rejected_keeps_new_stream [OF h] h s show ?thesis
    by (auto simp: ex_node_def)
qed

lemma ex_env_cert_fails_simps:
  "RepoConfig ex_env_cert_fails t = Inr ex_cfg"
  "DialAddr ex_env_cert_fails t a = None"
  "OpenStreamSync ex_env_cert_fails t = None"
  "Sign ex_env_cert_fails t b = Inr (''signed:'' @ b)"
  "Encode ex_env_cert_fails t s m = None"
  "Decode ex_env_cert_fails t s = (Some \<lparr>Service = JoinService, Data = DJoinRes ex_res\<rparr>, None)"
  "MkdirAll ex_env_cert_fails t p = None"
  "WriteFile ex_env_cert_fails t p c =
     (if p = ''/data/certs/1.2.3.4/cert.pem'' then Some (''no space left on device'', Some []) else None)"
  "Clean ex_env_cert_fails p = p"
  by (simp_all add: ex_env_cert_fails_def ex_env_simps)

lemma ex_cert_fails_paths:
  "cert_dir ex_env_cert_fails ex_node ip = ''/data/certs/'' @ ip"
  "private_pem ex_env_cert_fails ex_node ip = ''/data/certs/'' @ ip @ ''/private.pem''"
  "cert_pem ex_env_cert_fails ex_node ip = ''/data/certs/'' @ ip @ ''/cert.pem''"
  by (simp_all add: cert_dir_def private_pem_def cert_pem_def ex_env_cert_fails_simps ex_node_simps)

lemma ex_cert_fails_run:
  "\<exists>n'. JoinLuanet (Suc (Suc 0)) ex_env_cert_fails ex_node = Some (n', Returns (Inr ex_res))
     \<and> files n' ''/data/certs/1.2.3.4/cert.pem'' = Some []"
proof -
  have "Success ex_res" by (simp add: ex_res_def)
  from JoinLuanet_accepted [of ex_env_cert_fails ex_cfg JoinService ex_res None ex_node 0, OF _ _ _ _ _ _ this]
  obtain n9 where c9: "ConfigRoot n9 = ConfigRoot ex_node"
    and j: "JoinLuanet (Suc (Suc 0)) ex_env_cert_fails ex_node =
       Some (case write_certs ex_env_cert_fails n9 (Certs ex_res) of
               (n10, None) \<Rightarrow> (n10, Returns (Inr ex_res))
             | (n10, Some err) \<Rightarrow> (n10, Returns (Inl err)))"
    by (auto simp: ex_env_cert_fails_simps)
  note p9 = ex_cert_fails_paths [unfolded paths_cong [OF c9 [symmetric], of ex_env_cert_fails]]
  let ?a = "\<lparr>Pems = \<lparr>Privkey = ''KEY-A'', Cert = ''CERT-A''\<rparr>\<rparr>"
  let ?b = "\<lparr>Pems = \<lparr>Privkey = ''KEY-B'', Cert = ''CERT-B''\<rparr>\<rparr>"
  have "MkdirAll ex_env_cert_fails (clock n9) (cert_dir ex_env_cert_fails n9 ''1.2.3.4'') = None"
    "WriteFile ex_env_cert_fails (clock n9 + 1) (private_pem ex_env_cert_fails n9 ''1.2.3.4'')
       (Privkey (Pems ?a)) = None"
    "WriteFile ex_env_cert_fails (clock n9 + 2) (cert_pem ex_env_cert_fails n9 ''1.2.3.4'')
       (Cert (Pems ?a)) = Some (''no space left on device'', Some [])"
    "private_pem ex_env_cert_fails n9 ''1.2.3.4'' \<noteq> cert_pem ex_env_cert_fails n9 ''1.2.3.4''"
    by (simp_all add: p9 ex_env_cert_fails_simps)
  from write_certs_cert_pem_failure [OF this, of "[(''5.6.7.8'', ?b)]"] obtain n3 where
    3: "write_certs ex_env_cert_fails n9 [(''1.2.3.4'', ?a), (''5.6.7.8'', ?b)]
          = write_certs ex_env_cert_fails n3 [(''5.6.7.8'', ?b)]"
    "files n3 (cert_pem ex_env_cert_fails n9 ''1.2.3.4'') = Some []"
    "ConfigRoot n3 = ConfigRoot n9" by blast
  note p3 = p9 [unfolded paths_cong [OF 3(3) [symmetric], of ex_env_cert_fails]]
  obtain n' r' where w: "write_certs ex_env_cert_fails n3 [(''5.6.7.8'', ?b)] = (n', r')" by fastforce
  have c3: "ConfigRoot n3 = ''/data''" using 3(3) c9 by (simp add: ex_node_simps)
  have "r' = None"
    using w by (auto simp: os_MkdirAll_def ioutil_WriteFile_def Let_def c3
        cert_dir_def private_pem_def cert_pem_def ex_env_cert_fails_simps)
  moreover from write_certs_keeps [OF w] have "files n' ''/data/certs/1.2.3.4/cert.pem''
      = files n3 ''/data/certs/1.2.3.4/cert.pem''"
    by (simp add: p3)
  ultimately have "write_certs ex_env_cert_fails n9 (Certs ex_res) = (n', None)"
    "files n' ''/data/certs/1.2.3.4/cert.pem'' = Some []"
    using 3 w by (simp_all add: ex_res_def p9 del: write_certs.simps)
  with j show ?thesis by simp
qed

text \<open>
  Claim C4, as stated: the signature that the join produces verifies over the signed bytes
  and over no other byte string. The join signs with whatever key the node holds and never
  verifies; what a signature verifies over is decided by the key. With a key whose signature
  is the first eight bytes of what it signs, the join signs \<open>''Qm123.1700000000''\<close> and
  sends a signature that verifies over these bytes and over \<open>''Qm123.1799999999''\<close> too.
\<close>

theorem JoinLuanet_signature_other_bytes_counterexample:
  "map_option (trace \<circ> fst) (JoinLuanet (Suc (Suc 0)) ex_env_short_key ex_node) =
     Some [EvJoin, EvLog Info ''Connecting to node address: api.luanet.io:4242'', EvOpen 2,
           EvSign ''Qm123.1700000000'',
           EvEncode 2
             \<lparr>Service = JoinService,
              Data = DJoinReq \<lparr>Address = ''Qm123'', Ipv4 = ZeroIp, Ipv6 = ZeroIp,
                               Signature = ''Qm123.17'', Expires = 1700000000\<rparr>\<rparr> True]
   \<and> Verify ex_env_short_key ''Qm123.17'' ''Qm123.1700000000''
   \<and> Verify ex_env_short_key ''Qm123.17'' ''Qm123.1799999999''"
proof -
  have f: "FormatInt 1700000000 = ''1700000000''"
    by (simp add: FormatInt_def FormatUint.simps digit_def)
  show ?thesis
    by (simp add: JoinLuanet.simps(2) GetIpInfo_def ReadQuicMsg_def ex_env_short_key_def
        ex_env_rejecting_def ex_env_def ex_node_def ex_cfg_def ex_rejected_def Let_def f)
qed

text \<open>
  Claim C4, amended: a join whose configuration, dial, stream and signature succeed computes
  \<open>expires\<close> as the clock's Unix time plus \<^verbatim>\<open>ExpiresTime\<close> (in 64-bit arithmetic), hands
  to the private key exactly the bytes of the node's identity, a dot and \<open>expires\<close> in
  decimal, and sends a join request that carries the signature which the key returned for
  these bytes and the same \<open>expires\<close>. The instance after the theorem is the claim's
  example, \<open>''Qm123.1700000000''\<close>.
\<close>

theorem JoinLuanet_signs_identity_and_expiry:
  assumes "RepoConfig env (clock n) = Inr cfg"
    and "DialAddr env (clock n + 1) (Api cfg) = None"
    and "OpenStreamSync env (clock n + 2) = None"
    and "Sign env (clock n + 4)
           (Identity n @ ''.'' @ FormatInt (UnixNow env (clock n + 3) + ExpiresTime cfg)) = Inr sg"
    and "JoinLuanet f env n = Some (n', r)"
  shows "\<exists>ip4 ip6 ok rest.
       trace n' = trace n @
         [EvJoin, EvLog Info (''Connecting to node address: '' @ Api cfg), EvOpen (clock n + 2),
          EvSign (Identity n @ ''.'' @ FormatInt (UnixNow env (clock n + 3) + ExpiresTime cfg)),
          EvEncode (clock n + 2)
            \<lparr>Service = JoinService,
             Data = DJoinReq \<lparr>Address = Identity n, Ipv4 = ip4, Ipv6 = ip6, Signature = sg,
                              Expires = UnixNow env (clock n + 3) + ExpiresTime cfg\<rparr>\<rparr> ok] @ rest"
proof (cases f)
  case 0
  with assms(5) show ?thesis by simp
next
  case (Suc f')
  let ?bytes = "Identity n @ ''.'' @ FormatInt (UnixNow env (clock n + 3) + ExpiresTime cfg)"
  from join_request_signs [OF assms(1-4)] obtain n7 ip4 ip6 where
    jr: "join_request env n =
       (n7, Inr \<lparr>Service = JoinService,
                 Data = DJoinReq \<lparr>Address = Identity n, Ipv4 = ip4, Ipv6 = ip6, Signature = sg,
                                  Expires = UnixNow env (clock n + 3) + ExpiresTime cfg\<rparr>\<rparr>)"
    and t7: "trace n7 = trace n @ [EvJoin, EvLog Info (''Connecting to node address: '' @ Api cfg),
          EvOpen (clock n + 2), EvSign ?bytes]"
    and st: "Stream n7 = Some (clock n + 2)" by blast
  let ?message = "\<lparr>Service = JoinService,
                 Data = DJoinReq \<lparr>Address = Identity n, Ipv4 = ip4, Ipv6 = ip6, Signature = sg,
                                  Expires = UnixNow env (clock n + 3) + ExpiresTime cfg\<rparr>\<rparr>"
  from assms(5) Suc jr obtain n8 r8 where s: "SendQuicMsg f' env n7 ?message = Some (n8, r8)"
    by (auto simp: JoinLuanet_Suc split: option.splits)
  from SendQuicMsg_trace [OF st s] obtain ok rest0 where
    t8: "trace n8 = trace n7 @ EvEncode (clock n + 2) ?message ok # rest0" by blast
  have "\<exists>post. trace n' = trace n8 @ post"
  proof (cases r8)
    case Panics
    with assms(5) Suc jr s have "n' = n8" by (simp add: JoinLuanet_Suc)
    then show ?thesis by simp
  next
    case (Returns u)
    with assms(5) Suc jr s have "join_response env n8 = (n', r)" by (simp add: JoinLuanet_Suc)
    from join_response_frame [OF this] show ?thesis by blast
  qed
  then obtain post where "trace n' = trace n8 @ post" by blast
  with t7 t8 have "trace n' = trace n @
         [EvJoin, EvLog Info (''Connecting to node address: '' @ Api cfg), EvOpen (clock n + 2),
          EvSign ?bytes, EvEncode (clock n + 2) ?message ok] @ (rest0 @ post)" by simp
  then show ?thesis by blast
qed

theorem JoinLuanet_signs_identity_and_expiry_witness:
  "Identity ex_node @ ''.'' @ FormatInt (UnixNow ex_env (clock ex_node + 3) + ExpiresTime ex_cfg)
     = ''Qm123.1700000000'' \<and>
   (\<exists>n' r ip4 ip6 ok rest. JoinLuanet (Suc (Suc 0)) ex_env ex_node = Some (n', r) \<and>
      trace n' =
         [EvJoin, EvLog Info ''Connecting to node address: api.luanet.io:4242'', EvOpen 2,
          EvSign ''Qm123.1700000000'',
          EvEncode 2
            \<lparr>Service = JoinService,
             Data = DJoinReq \<lparr>Address = ''Qm123'', Ipv4 = ip4, Ipv6 = ip6,
                              Signature = ''signed:Qm123.1700000000'',
                              Expires = 1700000000\<rparr>\<rparr> ok] @ rest)"
proof -
  have e: "UnixNow ex_env (clock ex_node + 3) + ExpiresTime ex_cfg = 1700000000"
    by (simp add: ex_env_simps ex_cfg_def)
  have f: "FormatInt 1700000000 = ''1700000000''"
    by (simp add: FormatInt_def FormatUint.simps digit_def)
  have b: "Identity ex_node @ ''.'' @ FormatInt (UnixNow ex_env (clock ex_node + 3) + ExpiresTime ex_cfg)
     = ''Qm123.1700000000''"
    unfolding e f by (simp add: ex_node_simps)
  have h1: "RepoConfig ex_env (clock ex_node) = Inr ex_cfg" by (simp add: ex_env_simps)
  have h2: "DialAddr ex_env (clock ex_node + 1) (Api ex_cfg) = None" by (simp add: ex_env_simps)
  have h3: "OpenStreamSync ex_env (clock ex_node + 2) = None" by (simp add: ex_env_simps)
  have h4: "Sign ex_env (clock ex_node + 4)
      (Identity ex_node @ ''.'' @ FormatInt (UnixNow ex_env (clock ex_node + 3) + ExpiresTime ex_cfg))
      = Inr ''signed:Qm123.1700000000''"
    unfolding b by (simp add: ex_env_simps)
  have "Success ex_res" by (simp add: ex_res_def)
  from JoinLuanet_succeeds [of ex_env ex_cfg JoinService ex_res None, OF _ _ _ _ _ _ this]
  obtain n' where h5: "JoinLuanet (Suc (Suc 0)) ex_env ex_node = Some (n', Returns (Inr ex_res))"
    by (auto simp: ex_env_simps)
  from JoinLuanet_signs_identity_and_expiry [OF h1 h2 h3 h4 h5]
  obtain ip4 ip6 ok rest where
    "trace n' = trace ex_node @
         [EvJoin, EvLog Info (''Connecting to node address: '' @ Api ex_cfg), EvOpen (clock ex_node + 2),
          EvSign (Identity ex_node @ ''.'' @ FormatInt (UnixNow ex_env (clock ex_node + 3) + ExpiresTime ex_cfg)),
          EvEncode (clock ex_node + 2)
            \<lparr>Service = JoinService,
             Data = DJoinReq \<lparr>Address = Identity ex_node, Ipv4 = ip4, Ipv6 = ip6,
                              Signature = ''signed:Qm123.1700000000'',
                              Expires = UnixNow ex_env (clock ex_node + 3) + ExpiresTime ex_cfg\<rparr>\<rparr> ok] @ rest"
    by blast
  then have t: "trace n' =
         [EvJoin, EvLog Info ''Connecting to node address: api.luanet.io:4242'', EvOpen 2,
          EvSign ''Qm123.1700000000'',
          EvEncode 2
            \<lparr>Service = JoinService,
             Data = DJoinReq \<lparr>Address = ''Qm123'', Ipv4 = ip4, Ipv6 = ip6,
                              Signature = ''signed:Qm123.1700000000'',
                              Expires = 1700000000\<rparr>\<rparr> ok] @ rest"
    by (simp add: f ex_env_simps ex_node_simps ex_cfg_def)
  from b h5 t show ?thesis by blast
qed

text \<open>
  Claim C3, as stated: after the join has processed a successful response, both files of
  every entry hold the response's bytes. Where the \<^verbatim>\<open>cert.pem\<close> of the first address
  cannot be written (the failed write leaves an empty file), the join returns the response
  and no error, and that \<^verbatim>\<open>cert.pem\<close> does not hold the certificate.
\<close>

theorem JoinLuanet_cert_pem_failure_counterexample:
  "map_option snd (JoinLuanet (Suc (Suc 0)) ex_env_cert_fails ex_node) = Some (Returns (Inr ex_res))
   \<and> (''1.2.3.4'', \<lparr>Pems = \<lparr>Privkey = ''KEY-A'', Cert = ''CERT-A''\<rparr>\<rparr>) \<in> set (Certs ex_res)
   \<and> final_files (JoinLuanet (Suc (Suc 0)) ex_env_cert_fails ex_node) ''/data/certs/1.2.3.4/cert.pem''
       \<noteq> Some ''CERT-A''"
proof -
  from ex_cert_fails_run obtain n' where
    "JoinLuanet (Suc (Suc 0)) ex_env_cert_fails ex_node = Some (n', Returns (Inr ex_res))"
    "files n' ''/data/certs/1.2.3.4/cert.pem'' = Some []" by blast
  then show ?thesis by (simp add: final_files_def ex_res_def)
qed

text \<open>
  Claim C3, amended: when \<^verbatim>\<open>JoinLuanet\<close> returns the response \<open>res\<close>, the response was a
  successful one, and for every entry \<open>(ip, c)\<close> of its certificates the directory of
  \<open>ip\<close> exists and \<^verbatim>\<open>private.pem\<close> in it holds exactly the private key of \<open>c\<close>;
  \<^verbatim>\<open>cert.pem\<close> holds exactly the certificate of \<open>c\<close> if no write of that file fails, a
  failure that the join ignores. The paths of the files of the response are taken to be
  pairwise different (\<^verbatim>\<open>filepath.Clean\<close> is a parameter). That no \<^verbatim>\<open>MkdirAll\<close> and no
  write of a \<^verbatim>\<open>private.pem\<close> failed follows from the join's returning the response. The
  instance after the theorem is the claim's example with the two addresses.
\<close>

theorem JoinLuanet_writes_certificates:
  assumes "JoinLuanet f env n = Some (n', Returns (Inr res))"
    and "distinct (map (private_pem env n) (map fst (Certs res)) @ map (cert_pem env n) (map fst (Certs res)))"
  shows "Success res \<and> (\<forall>ip c. (ip, c) \<in> set (Certs res) \<longrightarrow>
       cert_dir env n ip \<in> dirs n'
     \<and> files n' (private_pem env n ip) = Some (Privkey (Pems c))
     \<and> ((\<forall>t. WriteFile env t (cert_pem env n ip) (Cert (Pems c)) = None) \<longrightarrow>
           files n' (cert_pem env n ip) = Some (Cert (Pems c))))"
proof (cases f)
  case 0
  with assms(1) show ?thesis by simp
next
  case (Suc f')
  obtain n7 q where jr: "join_request env n = (n7, q)" by fastforce
  from assms(1) Suc jr obtain message where q: "q = Inr message"
    by (cases q) (auto simp: JoinLuanet_Suc)
  from join_request_Inr [OF jr [unfolded q]] have c7: "ConfigRoot n7 = ConfigRoot n" by blast
  from assms(1) Suc jr q obtain n8 r8 where s: "SendQuicMsg f' env n7 message = Some (n8, r8)"
    by (auto simp: JoinLuanet_Suc split: option.splits)
  from SendQuicMsg_inv [OF s] have c8: "ConfigRoot n8 = ConfigRoot n7" by (simp add: run_inv_def)
  from assms(1) Suc jr q s have resp: "join_response env n8 = (n', Returns (Inr res))"
    by (cases r8) (simp_all add: JoinLuanet_Suc)
  from join_response_Inr [OF resp] obtain n9 where
    9: "Success res" "write_certs env n9 (Certs res) = (n', None)" "ConfigRoot n9 = ConfigRoot n8" by blast
  have c9: "ConfigRoot n9 = ConfigRoot n" using 9(3) c8 c7 by simp
  from write_certs_files [OF 9(2), unfolded paths_cong [OF c9], OF assms(2)] 9(1)
  show ?thesis by blast
qed

theorem JoinLuanet_writes_certificates_witness:
  "\<exists>n'. JoinLuanet (Suc (Suc 0)) ex_env ex_node = Some (n', Returns (Inr ex_res))
     \<and> ''/data/certs/1.2.3.4'' \<in> dirs n'
     \<and> files n' ''/data/certs/1.2.3.4/private.pem'' = Some ''KEY-A''
     \<and> files n' ''/data/certs/1.2.3.4/cert.pem'' = Some ''CERT-A''
     \<and> ''/data/certs/5.6.7.8'' \<in> dirs n'
     \<and> files n' ''/data/certs/5.6.7.8/private.pem'' = Some ''KEY-B''
     \<and> files n' ''/data/certs/5.6.7.8/cert.pem'' = Some ''CERT-B''"
proof -
  have "Success ex_res" by (simp add: ex_res_def)
  from JoinLuanet_succeeds [of ex_env ex_cfg JoinService ex_res None, OF _ _ _ _ _ _ this]
  obtain n' where h: "JoinLuanet (Suc (Suc 0)) ex_env ex_node = Some (n', Returns (Inr ex_res))"
    by (auto simp: ex_env_simps)
  have d: "distinct (map (private_pem ex_env ex_node) (map fst (Certs ex_res))
      @ map (cert_pem ex_env ex_node) (map fst (Certs ex_res)))"
    by (simp add: ex_paths ex_res_def)
  from JoinLuanet_writes_certificates [OF h d] h show ?thesis
    by (simp add: ex_paths ex_res_def ex_env_simps)
qed

section \<open>Failures while the certificates are written\<close>




section \<open>The port probes\<close>

lemma port_test_get_failure:
  assumes "HttpGet env (clock w) url = Inl e"
  shows "port_test v url env w =
     (emit (EvLog Warn (''Failed to check ipv'' @ v @ '' port forwarding.'')) (tick w), zero_IpTest)"
  using assms by (simp add: port_test_def)

lemma port_test_nothing_stored:
  assumes "HttpGet env (clock w) url = Inr body" and "JsonDecodeIpTest env body = (None, Some e)"
  shows "port_test v url env w =
     (emit (EvLog Warn (''Failed to decode ipv'' @ v @ '' port forwarding data.'')) (tick w), zero_IpTest)"
  using assms by (simp add: port_test_def Let_def)

lemma main_port_test_failure:
  assumes "HttpGet env (clock w) url = Inl e
     \<or> (\<exists>body stored e. HttpGet env (clock w) url = Inr body \<and> JsonDecodeIpTest env body = (stored, Some e))"
  shows "snd (main_port_test v url env w) = False"
  using assms by (auto simp: main_port_test_def Let_def)

lemma NodeTest_ports:
  "Ports (snd (NodeTest env w)) =
     [''v4'' \<mapsto> snd (ipv4Test env w), ''v6'' \<mapsto> snd (ipv6Test env (fst (ipv4Test env w)))]"
  by (simp add: NodeTest_def Let_def split: prod.splits list.splits)

lemma NodeTest_both_lookups_fail:
  assumes "\<forall>t u. \<exists>e. HttpGet env t u = Inl e"
  shows "Ports (snd (NodeTest env w)) = [''v4'' \<mapsto> zero_IpTest, ''v6'' \<mapsto> zero_IpTest]"
proof -
  from assms obtain e4 where 4: "HttpGet env (clock w) ''http://ip4.luanet.io'' = Inl e4" by blast
  have v4: "ipv4Test env w = (emit (EvLog Warn ''Failed to check ipv4 port forwarding.'') (tick w), zero_IpTest)"
    unfolding ipv4Test_def using port_test_get_failure [OF 4, of "''4''"] by simp
  let ?w1 = "emit (EvLog Warn ''Failed to check ipv4 port forwarding.'') (tick w)"
  from assms obtain e6 where 6: "HttpGet env (clock ?w1) ''http://ip6.luanet.io'' = Inl e6" by blast
  have v6: "snd (ipv6Test env ?w1) = zero_IpTest"
    unfolding ipv6Test_def using port_test_get_failure [OF 6, of "''6''"] by simp
  show ?thesis unfolding NodeTest_ports v4 using v6 by simp
qed

lemma testCmd_Run_no_error: "snd (testCmd_Run env w) = None"
  by (simp add: testCmd_Run_def split: prod.splits)

text \<open>
  Claim C8 says that every failed lookup, a malformed response body included, is reported as
  closed for both ports. It holds when the request fails and when the decoder fails before
  it stores anything (lemmas \<open>port_test_get_failure\<close>, \<open>port_test_nothing_stored\<close>,
  \<open>NodeTest_both_lookups_fail\<close>), and no probe and no command cycle returns an error
  (\<open>testCmd_Run_no_error\<close>). It fails for a body that the decoder rejects after storing
  fields: \<^verbatim>\<open>ipv4Test\<close> of package \<^verbatim>\<open>node\<close> logs the decode failure and returns
  \<^verbatim>\<open>cResp\<close> with both ports open, where the older \<^verbatim>\<open>ipv4Test\<close> of package \<^verbatim>\<open>main\<close>
  returns \<^verbatim>\<open>false\<close>.
\<close>

theorem ipv4Test_decode_error_reports_open:
  "ipv4Test ex_env_mismatch ex_node =
     (emit (EvLog Warn ''Failed to decode ipv4 port forwarding data.'') (tick ex_node),
      \<lparr>Ip = [], Swarm = True, Gateway = True\<rparr>)
   \<and> snd (main_ipv4Test ex_env_mismatch ex_node) = False"
  by (simp add: ipv4Test_def port_test_def main_ipv4Test_def main_port_test_def Let_def ex_env_mismatch_def)

end
